theory Spec2Isabelle
  imports Complex_Main
begin

section \<open>Conventions of the embedding\<close>

text \<open>
  The repository is Python. Floating-point numbers are embedded as \<^typ>\<open>real\<close>, Python
  integers as \<^typ>\<open>int\<close>, dictionaries with a fixed set of keys as records, dictionaries
  keyed by run-time values as maps. A method that mutates \<open>self\<close> takes the object's
  state and returns the new state next to its result. An exception is a value of
  \<open>py_error\<close>; the state a raising call leaves behind is returned with it, since the
  assignments made before the raise stay in place. Wall-clock reads
  (\<open>datetime.utcnow()\<close>) are an argument \<open>now\<close>, in seconds.
\<close>

datatype py_error = ZeroDivisionError

section \<open>AdaptiveRiskManager (python\_algo/main.py)\<close>

record trade_record =
  tr_result :: string
  tr_pnl :: real
  tr_timestamp :: real
  tr_account_balance :: real

record risk_manager =
  recent_trades :: "trade_record list"
  consecutive_losses :: int
  consecutive_wins :: int
  daily_pnl :: real
  max_drawdown :: real
  account_peak :: real
  base_cooldown :: real
  max_cooldown :: real
  loss_threshold :: real
  consecutive_loss_limit :: int
  last_trade_time :: "string \<rightharpoonup> real"
  adaptive_cooldowns :: "string \<rightharpoonup> real"
  lockout_reasons :: "string \<rightharpoonup> string"

text \<open>\<open>AdaptiveRiskManager.__init__\<close>.\<close>

definition init_risk_manager :: risk_manager where
  "init_risk_manager =
     \<lparr>recent_trades = [], consecutive_losses = 0, consecutive_wins = 0,
      daily_pnl = 0, max_drawdown = 0, account_peak = 0,
      base_cooldown = 5, max_cooldown = 60, loss_threshold = 0.02,
      consecutive_loss_limit = 3,
      last_trade_time = Map.empty, adaptive_cooldowns = Map.empty,
      lockout_reasons = Map.empty\<rparr>"

text \<open>Python's \<open>xs[-n:]\<close> for \<open>n > 0\<close>: the last \<open>n\<close> elements.\<close>

definition last_n :: "nat \<Rightarrow> 'a list \<Rightarrow> 'a list" where
  "last_n n xs = drop (length xs - n) xs"

text \<open>
  \<open>update_performance\<close>. The drawdown division raises \<open>ZeroDivisionError\<close> when the
  peak is still \<open>0\<close> (no positive balance seen yet); the trade window, the streak
  counters, the daily PnL and the peak have been assigned by then.
\<close>

definition update_performance ::
  "string \<Rightarrow> real \<Rightarrow> real \<Rightarrow> real \<Rightarrow> risk_manager \<Rightarrow> (py_error + unit) \<times> risk_manager" where
  "update_performance trade_result pnl account_balance now s =
     (let s1 = s\<lparr>recent_trades := recent_trades s @
                  [\<lparr>tr_result = trade_result, tr_pnl = pnl, tr_timestamp = now,
                    tr_account_balance = account_balance\<rparr>]\<rparr>;
          s2 = (if length (recent_trades s1) > 20
                then s1\<lparr>recent_trades := last_n 20 (recent_trades s1)\<rparr> else s1);
          s3 = (if trade_result = ''LOSS''
                then s2\<lparr>consecutive_losses := consecutive_losses s2 + 1, consecutive_wins := 0\<rparr>
                else if trade_result = ''WIN''
                then s2\<lparr>consecutive_wins := consecutive_wins s2 + 1, consecutive_losses := 0\<rparr>
                else s2);
          s4 = s3\<lparr>daily_pnl := daily_pnl s3 + pnl\<rparr>;
          s5 = (if account_balance > account_peak s4
                then s4\<lparr>account_peak := account_balance\<rparr> else s4)
      in if account_peak s5 = 0 then (Inl ZeroDivisionError, s5)
         else (Inr (), s5\<lparr>max_drawdown :=
                 max (max_drawdown s5) ((account_peak s5 - account_balance) / account_peak s5)\<rparr>))"

definition calculate_win_rate :: "nat \<Rightarrow> risk_manager \<Rightarrow> real" where
  "calculate_win_rate window0 s =
     (let window = (if length (recent_trades s) < window0 then length (recent_trades s) else window0)
      in if window = 0 then 0.5
         else real (length (filter (\<lambda>t. tr_result t = ''WIN'') (last_n window (recent_trades s))))
              / real window)"

definition calculate_avg_win_loss_ratio :: "risk_manager \<Rightarrow> real" where
  "calculate_avg_win_loss_ratio s =
     (let wins = map tr_pnl (filter (\<lambda>t. tr_result t = ''WIN'') (recent_trades s));
          losses = map (\<lambda>t. \<bar>tr_pnl t\<bar>) (filter (\<lambda>t. tr_result t = ''LOSS'') (recent_trades s))
      in if wins = [] \<or> losses = [] then 1
         else (let avg_win = sum_list wins / real (length wins);
                   avg_loss = sum_list losses / real (length losses)
               in if avg_loss > 0 then avg_win / avg_loss else 1))"

text \<open>\<open>max(factors) if factors else 1.0\<close>.\<close>

definition max_factor :: "real list \<Rightarrow> real" where
  "max_factor factors = (case factors of [] \<Rightarrow> 1 | f # fs \<Rightarrow> fold max fs f)"

text \<open>The list \<open>factors\<close> of \<open>should_adapt_cooldown\<close>, in the order it is appended to.\<close>

definition cooldown_factors :: "risk_manager \<Rightarrow> real list" where
  "cooldown_factors s =
     (if consecutive_losses s \<ge> 3 then [2.0]
      else if consecutive_losses s \<ge> 2 then [1.5] else [])
     @ (if max_drawdown s > 0.05 then [1.5]
        else if max_drawdown s > 0.03 then [1.3] else [])
     @ (if calculate_win_rate 10 s < 0.3 then [1.4]
        else if calculate_win_rate 10 s < 0.4 then [1.2] else [])
     @ (if calculate_avg_win_loss_ratio s < 1.0 then [1.3] else [])
     @ (if length (recent_trades s) \<ge> 5
           \<and> length (filter (\<lambda>t. tr_result t = ''LOSS'') (last_n 5 (recent_trades s))) \<ge> 4
        then [2.0] else [])"

definition should_adapt_cooldown :: "string \<Rightarrow> risk_manager \<Rightarrow> real \<times> risk_manager" where
  "should_adapt_cooldown direction s =
     (let current_cooldown =
            (case adaptive_cooldowns s direction of None \<Rightarrow> base_cooldown s | Some c \<Rightarrow> c);
          multiplier = max_factor (cooldown_factors s);
          new_cooldown0 = min (current_cooldown * multiplier) (max_cooldown s);
          new_cooldown =
            (if consecutive_wins s \<ge> 3 then max (new_cooldown0 * 0.7) (base_cooldown s)
             else if calculate_win_rate 10 s > 0.6 \<and> calculate_avg_win_loss_ratio s > 1.5
             then max (new_cooldown0 * 0.8) (base_cooldown s)
             else new_cooldown0)
      in (new_cooldown, s\<lparr>adaptive_cooldowns := (adaptive_cooldowns s)(direction \<mapsto> new_cooldown)\<rparr>))"

text \<open>
  The reason strings of \<open>is_locked_out\<close> are f-strings; the embedding keeps the tag and
  the numbers each one interpolates: the drawdown in percent, the loss streak, the
  remaining minutes with the win rate. \<open>NoReason\<close> is the empty string.
\<close>

datatype lock_reason =
    Emergency real
  | Protection int
  | AdaptiveCooldown real real
  | NoReason

text \<open>
  \<open>is_locked_out(direction, account_balance=None)\<close>. \<open>if account_balance:\<close> is
  Python truthiness: false for \<open>None\<close> and for \<open>0\<close>. \<open>if last_trade:\<close> tests a
  datetime, which is true whenever the key is present.
\<close>

definition is_locked_out ::
  "string \<Rightarrow> real option \<Rightarrow> real \<Rightarrow> risk_manager \<Rightarrow> (bool \<times> lock_reason) \<times> risk_manager" where
  "is_locked_out direction account_balance now s =
     (let emergency =
            (case account_balance of
               None \<Rightarrow> None
             | Some b \<Rightarrow>
                 if b \<noteq> 0 \<and> account_peak s > 0
                    \<and> (account_peak s - b) / account_peak s > loss_threshold s
                 then Some ((account_peak s - b) / account_peak s) else None)
      in case emergency of
           Some current_drawdown \<Rightarrow> ((True, Emergency (current_drawdown * 100)), s)
         | None \<Rightarrow>
             if consecutive_losses s \<ge> consecutive_loss_limit s
             then ((True, Protection (consecutive_losses s)), s)
             else (case last_trade_time s direction of
                     None \<Rightarrow> ((False, NoReason), s)
                   | Some last_trade \<Rightarrow>
                       (let (cooldown_minutes, s') = should_adapt_cooldown direction s;
                            time_since_last = (now - last_trade) / 60
                        in if time_since_last < cooldown_minutes
                           then ((True, AdaptiveCooldown (cooldown_minutes - time_since_last)
                                          (calculate_win_rate 10 s')), s')
                           else ((False, NoReason), s'))))"

definition register_trade :: "string \<Rightarrow> real \<Rightarrow> risk_manager \<Rightarrow> risk_manager" where
  "register_trade direction now s = s\<lparr>last_trade_time := (last_trade_time s)(direction \<mapsto> now)\<rparr>"

text \<open>
  The public mutators of the governor as operations, to speak about every state a
  sequence of calls can reach from a fresh object.
\<close>

datatype risk_op =
    UpdatePerformance string real real real
  | ShouldAdaptCooldown string
  | IsLockedOut string "real option" real
  | RegisterTrade string real

fun apply_risk_op :: "risk_op \<Rightarrow> risk_manager \<Rightarrow> risk_manager" where
  "apply_risk_op (UpdatePerformance r p b now) s = snd (update_performance r p b now s)"
| "apply_risk_op (ShouldAdaptCooldown d) s = snd (should_adapt_cooldown d s)"
| "apply_risk_op (IsLockedOut d b now) s = snd (is_locked_out d b now s)"
| "apply_risk_op (RegisterTrade d now) s = register_trade d now s"

definition run_risk_ops :: "risk_op list \<Rightarrow> risk_manager \<Rightarrow> risk_manager" where
  "run_risk_ops ops s = fold apply_risk_op ops s"

text \<open>Whether an operation ingests a winning trade (the only way a loss streak ends).\<close>

fun ingests_win :: "risk_op \<Rightarrow> bool" where
  "ingests_win (UpdatePerformance r p b now) = (r = ''WIN'')"
| "ingests_win (ShouldAdaptCooldown d) = False"
| "ingests_win (IsLockedOut d b now) = False"
| "ingests_win (RegisterTrade d now) = False"

text \<open>
  The invariant of the governor: the thresholds keep their initial values, the loss
  streak is never negative, and every stored cooldown lies between base and maximum.
\<close>

definition cooldown_inv :: "risk_manager \<Rightarrow> bool" where
  "cooldown_inv s \<longleftrightarrow>
     base_cooldown s = 5 \<and> max_cooldown s = 60 \<and> consecutive_loss_limit s = 3 \<and>
     0 \<le> consecutive_losses s \<and>
     (\<forall>d v. adaptive_cooldowns s d = Some v \<longrightarrow> 5 \<le> v \<and> v \<le> 60)"

section \<open>Position lifecycle: manage\_position (strategy\_v10.py, strategy.py)\<close>

text \<open>
  The \<open>'action'\<close> of a signal or position is one of the strings \<open>'HOLD'\<close>, \<open>'BUY'\<close>,
  \<open>'SELL'\<close>. Where the source tests \<open>== 'BUY'\<close> and falls into an \<open>else\<close>, the model
  does the same.
\<close>

datatype action = HOLD | BUY | SELL

text \<open>
  The position dictionary of \<open>manage_position\<close>. The keys \<open>'breakeven'\<close>,
  \<open>'partial_taken'\<close> and \<open>'partial2_taken'\<close> are only ever tested for presence
  (\<open>'breakeven' not in position\<close>) and set to \<open>True\<close>: each is a flag that says whether
  the key is present. \<open>'atr'\<close> is read with \<open>position.get('atr', 0.001)\<close>. Times are in
  seconds.
\<close>

record position =
  pos_action :: action
  pos_entry :: real
  pos_sl :: real
  pos_tp :: real
  pos_size :: real
  pos_entry_time :: real
  pos_atr :: "real option"
  pos_breakeven :: bool
  pos_partial_taken :: bool
  pos_partial2_taken :: bool

text \<open>
  The exit dictionaries: \<open>{'action': 'CLOSE', 'price', 'pnl', 'reason'}\<close> and
  \<open>{'action': 'PARTIAL_CLOSE', 'price', 'pnl', 'size', 'reason'}\<close>.
\<close>

datatype exit_signal =
    CLOSE real real string
  | PARTIAL_CLOSE real real real string

text \<open>
  One trailing tier (\<open># Trailing after 2R\<close>, \<open># Aggressive trailing after 3R\<close>): the
  candidate stop is the price minus (long) or plus (short) \<open>atr * k\<close>, taken only when it
  is strictly tighter than the current stop.
\<close>

definition trail_tier :: "real \<Rightarrow> real \<Rightarrow> real \<Rightarrow> position \<Rightarrow> position" where
  "trail_tier k atr current_price p =
     (if pos_action p = BUY
      then (let new_sl = current_price - atr * k
            in if new_sl > pos_sl p then p\<lparr>pos_sl := new_sl\<rparr> else p)
      else (let new_sl = current_price + atr * k
            in if new_sl < pos_sl p then p\<lparr>pos_sl := new_sl\<rparr> else p))"

text \<open>
  \<open>pips\<close>: the signed distance of the price from the entry, in the position's favour.
\<close>

definition position_pips :: "position \<Rightarrow> real \<Rightarrow> real" where
  "position_pips p current_price =
     (if pos_action p = BUY then (current_price - pos_entry p) * 100
      else (pos_entry p - current_price) * 100)"

text \<open>
  \<open># Move to breakeven after 1R\<close>: both branches of the inner \<open>if\<close> assign
  \<open>entry_price\<close> to the stop.
\<close>

definition move_to_breakeven :: "real \<Rightarrow> real \<Rightarrow> position \<Rightarrow> position" where
  "move_to_breakeven pips risk_pips p =
     (if \<not> pos_breakeven p \<and> \<bar>pips\<bar> \<ge> risk_pips
      then p\<lparr>pos_breakeven := True, pos_sl := pos_entry p\<rparr> else p)"

text \<open>\<open>if abs(pips) >= n * risk_pips:\<close> followed by the tier with multiple \<open>k\<close>.\<close>

definition trail_after ::
  "real \<Rightarrow> real \<Rightarrow> real \<Rightarrow> real \<Rightarrow> real \<Rightarrow> real \<Rightarrow> position \<Rightarrow> position" where
  "trail_after n k pips risk_pips atr current_price p =
     (if \<bar>pips\<bar> \<ge> n * risk_pips then trail_tier k atr current_price p else p)"

text \<open>
  The stop bookkeeping of \<open>manage_position\<close> (the lines from \<open># Dynamic trailing stop\<close>
  to the stop-loss check): \<open>risk_pips\<close> is computed once, from the stop the call starts
  with; then breakeven, the 2R tier and the 3R tier, each on \<open>abs(pips)\<close>.
\<close>

definition update_stops :: "position \<Rightarrow> real \<Rightarrow> position" where
  "update_stops p current_price =
     (let pips = position_pips p current_price;
          atr = (case pos_atr p of None \<Rightarrow> 0.001 | Some a \<Rightarrow> a);
          risk_pips = \<bar>pos_entry p - pos_sl p\<bar> * 100
      in trail_after 3 1.5 pips risk_pips atr current_price
           (trail_after 2 2 pips risk_pips atr current_price
              (move_to_breakeven pips risk_pips p)))"

text \<open>
  \<open>manage_position(position, current_price, current_time)\<close>, returning the pair
  \<open>(position, exit_signal)\<close> with \<open>None\<close> as \<open>None\<close>. The two classes differ in the
  time limit expression (\<open>timedelta(hours=12)\<close> against
  \<open>timedelta(hours=self.time_stop_hours)\<close> with \<open>time_stop_hours = 12\<close>) and in the
  reason string of the time exit; the rest of the body is the same text, so it is
  written once over these two parameters.
\<close>

definition manage_position_body ::
  "real \<Rightarrow> string \<Rightarrow> position option \<Rightarrow> real \<Rightarrow> real \<Rightarrow> position option \<times> exit_signal option" where
  "manage_position_body time_stop_hours time_reason position current_price current_time =
     (case position of
        None \<Rightarrow> (None, None)
      | Some p \<Rightarrow>
          (let entry_price = pos_entry p;
               position_size_lots = pos_size p;
               pips = position_pips p current_price;
               current_pnl = pips * position_size_lots * 10
           in if current_time - pos_entry_time p > time_stop_hours * 3600
              then (None, Some (CLOSE current_price current_pnl time_reason))
              else
                (let risk_pips = \<bar>entry_price - pos_sl p\<bar> * 100;
                     p3 = update_stops p current_price
                 in if (pos_action p3 = BUY \<and> current_price \<le> pos_sl p3)
                       \<or> (pos_action p3 = SELL \<and> current_price \<ge> pos_sl p3)
                    then (let sl_pips = (if pos_action p3 = BUY
                                         then (pos_sl p3 - entry_price) * 100
                                         else (entry_price - pos_sl p3) * 100)
                          in (None, Some (CLOSE (pos_sl p3) (sl_pips * position_size_lots * 10)
                                            ''Stop loss hit'')))
                    else if (pos_action p3 = BUY \<and> current_price \<ge> pos_tp p3)
                            \<or> (pos_action p3 = SELL \<and> current_price \<le> pos_tp p3)
                    then (let tp_pips = (if pos_action p3 = BUY
                                         then (pos_tp p3 - entry_price) * 100
                                         else (entry_price - pos_tp p3) * 100)
                          in (None, Some (CLOSE (pos_tp p3) (tp_pips * position_size_lots * 10)
                                            ''Take profit hit'')))
                    else if \<not> pos_partial_taken p3 \<and> \<bar>pips\<bar> \<ge> 2 * risk_pips
                    then (Some (p3\<lparr>pos_partial_taken := True,
                                    pos_size := position_size_lots * 0.75\<rparr>),
                          Some (PARTIAL_CLOSE current_price (current_pnl * 0.25)
                                  (position_size_lots * 0.25) ''Partial profit at 2R''))
                    else if \<not> pos_partial2_taken p3 \<and> pos_partial_taken p3
                            \<and> \<bar>pips\<bar> \<ge> 3 * risk_pips
                    then (Some (p3\<lparr>pos_partial2_taken := True,
                                    pos_size := pos_size p3 * 0.667\<rparr>),
                          Some (PARTIAL_CLOSE current_price (current_pnl * 0.333)
                                  (pos_size p3 * 0.333) ''Second partial at 3R''))
                    else (Some p3, None))))"

text \<open>\<open>PhantomNodeV10.manage_position\<close> (strategy\_v10.py).\<close>

definition manage_position_v10 ::
  "position option \<Rightarrow> real \<Rightarrow> real \<Rightarrow> position option \<times> exit_signal option" where
  "manage_position_v10 = manage_position_body 12 ''Time exit (12h)''"

text \<open>\<open>UsdJpyQuantStrategy.manage_position\<close> (strategy.py).\<close>

definition manage_position ::
  "position option \<Rightarrow> real \<Rightarrow> real \<Rightarrow> position option \<times> exit_signal option" where
  "manage_position = manage_position_body 12 ''Time exit''"



section \<open>Trailing stop of the signal engine (strategy\_backup\_optimized.py)\<close>




section \<open>Backtest replayer (backtest\_cli.py)\<close>

text \<open>
  A row of the data frame: \<open>row['date']\<close> as milliseconds since the epoch (the frame
  builds it with \<open>pd.to_datetime(df['timestamp'], unit='ms')\<close>), the prices, and
  \<open>row.get('atr14', 0)\<close> as an optional column.
\<close>

record bar =
  bar_time :: int
  bar_open :: real
  bar_high :: real
  bar_low :: real
  bar_close :: real
  bar_atr14 :: "real option"

text \<open>\<open>row['date'].date()\<close>: the UTC day, as a day number.\<close>

definition bar_date :: "bar \<Rightarrow> int" where
  "bar_date row = bar_time row div 86400000"

text \<open>
  \<open>PhantomNodeV10.is_trading_session_active\<close> (strategy\_v10.py). \<open>weekday()\<close> counts
  from Monday = 0 and day 0 of the epoch was a Thursday. On a Friday
  \<open>hour > 21 or (hour == 21 and minute >= 0)\<close> is \<open>hour >= 21\<close>.
\<close>

definition is_trading_session_active :: "int \<Rightarrow> bool" where
  "is_trading_session_active current_time =
     (let weekday = (current_time div 86400000 + 3) mod 7;
          hour = (current_time div 3600000) mod 24
      in if weekday = 5 then False
         else if weekday = 6 then False
         else if weekday = 4 \<and> hour \<ge> 21 then False
         else True)"

text \<open>
  The keys of a signal dictionary that the replayer reads. \<open>'entry'\<close>, \<open>'sl'\<close> and
  \<open>'tp'\<close> are read only when the action is \<open>'BUY'\<close> or \<open>'SELL'\<close>.
\<close>

record cli_signal =
  sig_action :: action
  sig_entry :: real
  sig_sl :: real
  sig_tp :: real

text \<open>
  \<open>active_trade['signal']['phantom_node']['trailing_stop']\<close>, with the defaults of the
  \<open>.get\<close> calls resolved. The trade dictionary the replayer builds has no \<open>'signal'\<close>
  key, which is \<open>None\<close> here.
\<close>

record trailing_stop_info =
  ts_enabled :: bool
  ts_atr_multiplier :: real
  ts_start_rr :: real

text \<open>
  The trade dictionary. The four exit keys are added when the trade is closed. The keys
  \<open>'direction'\<close>, \<open>'entryPrice'\<close>, \<open>'grade'\<close> and \<open>'confluenceScore'\<close> are written
  once and never read by the replayer; they are left out.
\<close>

record cli_trade =
  ct_id :: nat
  ct_action :: action
  ct_entry :: real
  ct_entryTime :: int
  ct_sl :: real
  ct_tp :: real
  ct_units :: int
  ct_trailing :: "trailing_stop_info option"
  ct_exitPrice :: "real option"
  ct_exitTime :: "int option"
  ct_exitReason :: "string option"
  ct_pnl :: "real option"

text \<open>
  \<open>current_rr >= start_rr\<close> where \<open>current_rr\<close> is a quotient of numpy floats: a zero
  stop distance gives \<open>inf\<close>, \<open>-inf\<close> or \<open>nan\<close> rather than an exception, and the
  comparison is then true only for \<open>inf\<close>.
\<close>

definition rr_reached :: "real \<Rightarrow> real \<Rightarrow> real \<Rightarrow> bool" where
  "rr_reached numer sl_dist start_rr =
     (if sl_dist = 0 then numer > 0 else numer / sl_dist \<ge> start_rr)"

text \<open>\<open># Update trailing stop if enabled\<close>.\<close>

definition cli_trailing_update :: "cli_trade \<Rightarrow> bar \<Rightarrow> cli_trade" where
  "cli_trailing_update t row =
     (case ct_trailing t of
        None \<Rightarrow> t
      | Some ts \<Rightarrow>
          if \<not> ts_enabled ts then t
          else
            (let current_price = bar_close row;
                 current_atr = (case bar_atr14 row of None \<Rightarrow> 0 | Some a \<Rightarrow> a);
                 sl_dist = (if ct_action t = SELL then ct_sl t - ct_entry t
                            else ct_entry t - ct_sl t)
             in if ct_action t = BUY
                then (if rr_reached (current_price - ct_entry t) sl_dist (ts_start_rr ts)
                      then t\<lparr>ct_sl := max (current_price - ts_atr_multiplier ts * current_atr)
                                          (ct_sl t)\<rparr>
                      else t)
                else (if rr_reached (ct_entry t - current_price) sl_dist (ts_start_rr ts)
                      then t\<lparr>ct_sl := min (current_price + ts_atr_multiplier ts * current_atr)
                                          (ct_sl t)\<rparr>
                      else t)))"

text \<open>
  The exit resolution of one bar: the breakeven move of the stop, then the stop test,
  then (\<open>elif\<close>) the target test. The result is the trade with its stop as the bar
  leaves it, and \<open>(exit_price, exit_reason)\<close> when an exit was found.
\<close>

definition cli_resolve_exit :: "cli_trade \<Rightarrow> bar \<Rightarrow> cli_trade \<times> (real \<times> string) option" where
  "cli_resolve_exit t row =
     (let low = bar_low row; high = bar_high row; entry_price = ct_entry t
      in if ct_action t = BUY
         then (let sl_dist = entry_price - ct_sl t;
                   t' = (if high > entry_price + sl_dist
                         then (let new_sl = entry_price + sl_dist * 0.1
                               in if new_sl > ct_sl t then t\<lparr>ct_sl := new_sl\<rparr> else t)
                         else t)
               in if low \<le> ct_sl t' then (t', Some (ct_sl t', ''Stop Loss''))
                  else if high \<ge> ct_tp t' then (t', Some (ct_tp t', ''Take Profit''))
                  else (t', None))
         else (let sl_dist = ct_sl t - entry_price;
                   t' = (if low < entry_price - sl_dist
                         then (let new_sl = entry_price - sl_dist * 0.1
                               in if new_sl < ct_sl t then t\<lparr>ct_sl := new_sl\<rparr> else t)
                         else t)
               in if high \<ge> ct_sl t' then (t', Some (ct_sl t', ''Stop Loss''))
                  else if low \<le> ct_tp t' then (t', Some (ct_tp t', ''Take Profit''))
                  else (t', None)))"

text \<open>\<open># 1. Manage Active Trade\<close> up to the exit decision.\<close>

definition cli_manage_active_trade :: "cli_trade \<Rightarrow> bar \<Rightarrow> cli_trade \<times> (real \<times> string) option" where
  "cli_manage_active_trade t row = cli_resolve_exit (cli_trailing_update t row) row"

text \<open>Python's \<open>int(x)\<close> on a float: truncation towards zero.\<close>

definition py_int :: "real \<Rightarrow> int" where
  "py_int x = (if x \<ge> 0 then \<lfloor>x\<rfloor> else \<lceil>x\<rceil>)"

text \<open>The local \<open>calc_units_usdjpy\<close> of the replayer (its \<open>action\<close> argument is unused).\<close>

definition cli_calc_units_usdjpy :: "real \<Rightarrow> real \<Rightarrow> real \<Rightarrow> real \<Rightarrow> int" where
  "cli_calc_units_usdjpy balance risk_pct entry sl =
     (let sl_dist = \<bar>entry - sl\<bar>
      in if sl_dist \<le> 0 then 0 else py_int (balance * risk_pct / sl_dist))"

text \<open>
  What the loop reads from its input: \<open>config['max_daily_loss']\<close>,
  \<open>config['risk_per_trade']\<close>, \<open>initial_equity\<close> and \<open>target_start_date\<close> (as
  milliseconds; \<open>None\<close> when absent).
\<close>

record bt_config =
  cfg_max_daily_loss :: real
  cfg_risk_per_trade :: real
  cfg_initial_equity :: real
  cfg_target_start :: "int option"

text \<open>The variables of the replay loop.\<close>

record bt_state =
  bt_equity :: real
  bt_active_trade :: "cli_trade option"
  bt_trades :: "cli_trade list"
  bt_equity_curve :: "(int \<times> real) list"
  bt_daily_pnl :: real
  bt_last_date :: "int option"

definition bt_init :: "bt_config \<Rightarrow> bt_state" where
  "bt_init cfg =
     \<lparr>bt_equity = cfg_initial_equity cfg, bt_active_trade = None, bt_trades = [],
      bt_equity_curve = [], bt_daily_pnl = 0, bt_last_date = None\<rparr>"

text \<open>\<open># Daily Reset\<close>.\<close>

definition bt_daily_reset :: "bar \<Rightarrow> bt_state \<Rightarrow> bt_state" where
  "bt_daily_reset row s =
     (if bt_last_date s \<noteq> Some (bar_date row)
      then s\<lparr>bt_daily_pnl := 0, bt_last_date := Some (bar_date row)\<rparr> else s)"

text \<open>
  \<open># 1. Manage Active Trade\<close>. \<open>if exit_price:\<close> is truthiness: an exit at price
  \<open>0\<close> is not booked, and the trade stays open with the stop the bar gave it.
\<close>

definition bt_manage :: "bar \<Rightarrow> bt_state \<Rightarrow> bt_state" where
  "bt_manage row s =
     (case bt_active_trade s of
        None \<Rightarrow> s
      | Some t \<Rightarrow>
          (case cli_manage_active_trade t row of
             (t', None) \<Rightarrow> s\<lparr>bt_active_trade := Some t'\<rparr>
           | (t', Some (exit_price, exit_reason)) \<Rightarrow>
               if exit_price = 0 then s\<lparr>bt_active_trade := Some t'\<rparr>
               else
                 (let price_diff0 = exit_price - ct_entry t';
                      price_diff = (if ct_action t' = SELL then - price_diff0 else price_diff0);
                      pnl_jpy = price_diff * real_of_int \<bar>ct_units t'\<bar> * 100000 * 0.01;
                      pnl = pnl_jpy / exit_price;
                      closed = t'\<lparr>ct_exitPrice := Some exit_price,
                                  ct_exitTime := Some (bar_time row),
                                  ct_exitReason := Some exit_reason,
                                  ct_pnl := Some pnl\<rparr>
                  in s\<lparr>bt_equity := bt_equity s + pnl,
                       bt_daily_pnl := bt_daily_pnl s + pnl,
                       bt_trades := bt_trades s @ [closed],
                       bt_active_trade := None\<rparr>)))"

text \<open>
  \<open># 2. Check for New Signal (if no active trade and not circuit broken)\<close>. The
  strategy is the argument \<open>generate_signal\<close>, applied to the slice \<open>df.iloc[:i+1]\<close>;
  the session filter is the strategy's own.
\<close>

definition bt_check_signal ::
  "bt_config \<Rightarrow> (bar list \<Rightarrow> cli_signal) \<Rightarrow> bar list \<Rightarrow> nat \<Rightarrow> bt_state \<Rightarrow> bt_state" where
  "bt_check_signal cfg generate_signal df i s =
     (let row = df ! i
      in if bt_active_trade s = None \<and> bt_daily_pnl s > - cfg_max_daily_loss cfg
         then
           (if is_trading_session_active (bar_time row)
            then
              (let signal = generate_signal (take (i + 1) df)
               in if sig_action signal = BUY \<or> sig_action signal = SELL
                  then
                    (let risk_pct = cfg_risk_per_trade cfg;
                         sl_dist = \<bar>sig_entry signal - sig_sl signal\<bar>
                     in if sl_dist > 0
                        then
                          (let units0 = cli_calc_units_usdjpy (bt_equity s) risk_pct
                                          (sig_entry signal) (sig_sl signal);
                               units = (if sig_action signal = SELL then - units0 else units0)
                           in s\<lparr>bt_active_trade := Some
                                  \<lparr>ct_id = length (bt_trades s) + 1,
                                   ct_action = sig_action signal,
                                   ct_entry = sig_entry signal,
                                   ct_entryTime = bar_time row,
                                   ct_sl = sig_sl signal,
                                   ct_tp = sig_tp signal,
                                   ct_units = units,
                                   ct_trailing = None,
                                   ct_exitPrice = None, ct_exitTime = None,
                                   ct_exitReason = None, ct_pnl = None\<rparr>\<rparr>)
                        else s)
                  else s)
            else s)
         else s)"

text \<open>
  The body of \<open>for i in range(warmup, len(df))\<close>: a row before the target start date
  is skipped by \<open>continue\<close>; every other row ends with one point of the equity curve.
\<close>

definition bt_step ::
  "bt_config \<Rightarrow> (bar list \<Rightarrow> cli_signal) \<Rightarrow> bar list \<Rightarrow> nat \<Rightarrow> bt_state \<Rightarrow> bt_state" where
  "bt_step cfg generate_signal df i s =
     (let row = df ! i
      in if (case cfg_target_start cfg of None \<Rightarrow> False | Some start \<Rightarrow> bar_time row < start)
         then s
         else
           (let s3 = bt_check_signal cfg generate_signal df i
                       (bt_manage row (bt_daily_reset row s))
            in s3\<lparr>bt_equity_curve := bt_equity_curve s3 @ [(bar_time row, bt_equity s3)]\<rparr>))"

text \<open>The loop over a list of row indices; the replayer runs it over \<open>range(500, len(df))\<close>.\<close>

definition bt_loop ::
  "bt_config \<Rightarrow> (bar list \<Rightarrow> cli_signal) \<Rightarrow> bar list \<Rightarrow> nat list \<Rightarrow> bt_state \<Rightarrow> bt_state" where
  "bt_loop cfg generate_signal df indices s = fold (bt_step cfg generate_signal df) indices s"

definition run_backtest_upto ::
  "bt_config \<Rightarrow> (bar list \<Rightarrow> cli_signal) \<Rightarrow> bar list \<Rightarrow> nat \<Rightarrow> bt_state" where
  "run_backtest_upto cfg generate_signal df n =
     bt_loop cfg generate_signal df [500 ..< n] (bt_init cfg)"

text \<open>\<open>run_backtest\<close>: the state when the loop has passed every row.\<close>

definition run_backtest ::
  "bt_config \<Rightarrow> (bar list \<Rightarrow> cli_signal) \<Rightarrow> bar list \<Rightarrow> bt_state" where
  "run_backtest cfg generate_signal df = run_backtest_upto cfg generate_signal df (length df)"

text \<open>
  Two predicates on the loop state. \<open>breaker_inv\<close> is an invariant of the loop: a
  trade is open only while the daily PnL is above the limit, and with a limit of zero or
  less no trade is ever opened. \<open>tripped\<close> is the state of a day whose realized loss
  has reached the limit.
\<close>

definition breaker_inv :: "bt_config \<Rightarrow> bt_state \<Rightarrow> bool" where
  "breaker_inv cfg s \<longleftrightarrow>
     (cfg_max_daily_loss cfg \<le> 0 \<longrightarrow> bt_active_trade s = None \<and> bt_daily_pnl s = 0)
     \<and> (bt_active_trade s = None \<or> bt_daily_pnl s > - cfg_max_daily_loss cfg)"

definition tripped :: "bt_config \<Rightarrow> int \<Rightarrow> bt_state \<Rightarrow> bool" where
  "tripped cfg d s \<longleftrightarrow>
     bt_active_trade s = None \<and> bt_daily_pnl s \<le> - cfg_max_daily_loss cfg
     \<and> bt_last_date s = Some d"

section \<open>VectorizedBacktester (backtester.py)\<close>

record vb_trade =
  vb_type :: action
  vb_entry_price :: real
  vb_entry_date :: int
  vb_sl :: real
  vb_tp :: real
  vb_size :: real

text \<open>
  \<open># 1. Manage Active Trade\<close> of \<open>VectorizedBacktester.run\<close>: the arguments
  \<open>(exit_price, reason)\<close> with which \<open>_close_trade\<close> is called, or \<open>None\<close> when the
  trade stays open.
\<close>

definition vb_manage_active_trade :: "vb_trade \<Rightarrow> bar \<Rightarrow> (real \<times> string) option" where
  "vb_manage_active_trade active_trade curr_row =
     (if vb_type active_trade = BUY
      then (if bar_low curr_row \<le> vb_sl active_trade
            then Some (vb_sl active_trade, ''Stop Loss'')
            else if bar_high curr_row \<ge> vb_tp active_trade
            then Some (vb_tp active_trade, ''Take Profit'')
            else None)
      else (if bar_high curr_row \<ge> vb_sl active_trade
            then Some (vb_sl active_trade, ''Stop Loss'')
            else if bar_low curr_row \<le> vb_tp active_trade
            then Some (vb_tp active_trade, ''Take Profit'')
            else None))"

text \<open>\<open>_close_trade\<close>: the PnL it books and the balance it leaves.\<close>

definition vb_close_trade :: "real \<Rightarrow> vb_trade \<Rightarrow> real \<Rightarrow> real \<times> real" where
  "vb_close_trade balance trade exit_price =
     (let pnl = (if vb_type trade = BUY
                 then (exit_price - vb_entry_price trade) * vb_size trade
                 else (vb_entry_price trade - exit_price) * vb_size trade)
      in (pnl, balance + pnl))"

section \<open>Indicators with epsilon guards (strategy\_backup\_optimized.py)\<close>

text \<open>
  \<open>calculate_indicators\<close> works on NumPy floats, where a division by zero and a
  logarithm of zero do not raise but give \<open>inf\<close>, \<open>-inf\<close> or \<open>nan\<close>. The embedding
  computes on real numbers and makes exactly those outcomes explicit: a value is \<open>Fin x\<close>
  or one of the three non-finite floats. Rounding is not modelled. A rolling window that
  is not yet full gives \<open>nan\<close> (pandas' \<open>min_periods\<close> is the window).
\<close>

datatype npfloat = Fin real | PosInf | NegInf | NaN

definition np_divide :: "real \<Rightarrow> real \<Rightarrow> npfloat" where
  "np_divide a b =
     (if b \<noteq> 0 then Fin (a / b)
      else if a > 0 then PosInf else if a < 0 then NegInf else NaN)"

definition np_log10 :: "real \<Rightarrow> npfloat" where
  "np_log10 x = (if x > 0 then Fin (log 10 x) else if x = 0 then NegInf else NaN)"

text \<open>The guard \<open>1e-10\<close>.\<close>

definition epsilon :: real where
  "epsilon = 1 / 10 ^ 10"

text \<open>
  The columns that feed the windows, at row \<open>i\<close>. Row 0 has no predecessor:
  \<open>shift()\<close> and \<open>diff()\<close> give \<open>nan\<close> there, which \<open>where(cond, 0)\<close> and \<open>np.where\<close>
  turn into \<open>0\<close> (a comparison with \<open>nan\<close> is false) and which \<open>max(axis=1)\<close> skips.
\<close>

definition gain_at :: "bar list \<Rightarrow> nat \<Rightarrow> real" where
  "gain_at df i =
     (if i = 0 then 0
      else (let delta = bar_close (df ! i) - bar_close (df ! (i - 1))
            in if delta > 0 then delta else 0))"

definition loss_at :: "bar list \<Rightarrow> nat \<Rightarrow> real" where
  "loss_at df i =
     (if i = 0 then 0
      else (let delta = bar_close (df ! i) - bar_close (df ! (i - 1))
            in - (if delta < 0 then delta else 0)))"

definition true_range :: "bar list \<Rightarrow> nat \<Rightarrow> real" where
  "true_range df i =
     (let high_low = bar_high (df ! i) - bar_low (df ! i)
      in if i = 0 then high_low
         else max (max high_low \<bar>bar_high (df ! i) - bar_close (df ! (i - 1))\<bar>)
                  \<bar>bar_low (df ! i) - bar_close (df ! (i - 1))\<bar>)"

definition plus_dm_at :: "bar list \<Rightarrow> nat \<Rightarrow> real" where
  "plus_dm_at df i =
     (if i = 0 then 0
      else (let up = bar_high (df ! i) - bar_high (df ! (i - 1));
                down = bar_low (df ! (i - 1)) - bar_low (df ! i)
            in if up > down \<and> up > 0 then up else 0))"

definition minus_dm_at :: "bar list \<Rightarrow> nat \<Rightarrow> real" where
  "minus_dm_at df i =
     (if i = 0 then 0
      else (let up = bar_high (df ! i) - bar_high (df ! (i - 1));
                down = bar_low (df ! (i - 1)) - bar_low (df ! i)
            in if down > up \<and> down > 0 then down else 0))"

text \<open>
  \<open>col.rolling(window=w)\<close> at row \<open>i\<close> of a frame of \<open>n\<close> rows: the values of the rows
  \<open>i - w + 1 .. i\<close>, or \<open>None\<close> (\<open>nan\<close>) while the window is not full.
\<close>

definition rolling_window :: "nat \<Rightarrow> nat \<Rightarrow> (nat \<Rightarrow> real) \<Rightarrow> nat \<Rightarrow> real list option" where
  "rolling_window n w col i =
     (if w = 0 \<or> n \<le> i \<or> i + 1 < w then None
      else Some (map col [i + 1 - w ..< i + 1]))"

definition rolling_sum :: "nat \<Rightarrow> nat \<Rightarrow> (nat \<Rightarrow> real) \<Rightarrow> nat \<Rightarrow> real option" where
  "rolling_sum n w col i = map_option sum_list (rolling_window n w col i)"

definition rolling_mean :: "nat \<Rightarrow> nat \<Rightarrow> (nat \<Rightarrow> real) \<Rightarrow> nat \<Rightarrow> real option" where
  "rolling_mean n w col i = map_option (\<lambda>xs. sum_list xs / real w) (rolling_window n w col i)"

definition rolling_max :: "nat \<Rightarrow> nat \<Rightarrow> (nat \<Rightarrow> real) \<Rightarrow> nat \<Rightarrow> real option" where
  "rolling_max n w col i =
     map_option (\<lambda>xs. fold max (tl xs) (hd xs)) (rolling_window n w col i)"

definition rolling_min :: "nat \<Rightarrow> nat \<Rightarrow> (nat \<Rightarrow> real) \<Rightarrow> nat \<Rightarrow> real option" where
  "rolling_min n w col i =
     map_option (\<lambda>xs. fold min (tl xs) (hd xs)) (rolling_window n w col i)"

text \<open>
  \<open>100 - (100 / (1 + rs))\<close> for \<open>rs = gain / (loss + 1e-10)\<close>, with the window as a
  parameter: 14 for \<open>df['rsi']\<close>, \<open>h1_rsi_len\<close> for \<open>df['h1_rsi14']\<close>. An infinite
  \<open>rs\<close> makes the quotient \<open>0\<close>.
\<close>

definition rsi_from_rs :: "npfloat \<Rightarrow> npfloat" where
  "rsi_from_rs rs =
     (case rs of
        Fin r \<Rightarrow>
          (case np_divide 100 (1 + r) of
             Fin q \<Rightarrow> Fin (100 - q)
           | PosInf \<Rightarrow> NegInf
           | NegInf \<Rightarrow> PosInf
           | NaN \<Rightarrow> NaN)
      | PosInf \<Rightarrow> Fin 100
      | NegInf \<Rightarrow> Fin 100
      | NaN \<Rightarrow> NaN)"

definition rsi_at :: "nat \<Rightarrow> bar list \<Rightarrow> nat \<Rightarrow> npfloat" where
  "rsi_at w df i =
     (case (rolling_mean (length df) w (gain_at df) i, rolling_mean (length df) w (loss_at df) i) of
        (Some gain, Some loss) \<Rightarrow> rsi_from_rs (np_divide gain (loss + epsilon))
      | _ \<Rightarrow> NaN)"

text \<open>\<open>100 * v\<close> on a NumPy float.\<close>

definition np_times_100 :: "npfloat \<Rightarrow> npfloat" where
  "np_times_100 v = (case v of Fin x \<Rightarrow> Fin (100 * x) | other \<Rightarrow> other)"

text \<open>
  \<open>plus_di\<close> and \<open>minus_di\<close>:
  \<open>100 * (dm.rolling(window=adx_len).sum() / (tr_sum + 1e-10))\<close>.
\<close>

definition di_at :: "(bar list \<Rightarrow> nat \<Rightarrow> real) \<Rightarrow> nat \<Rightarrow> bar list \<Rightarrow> nat \<Rightarrow> npfloat" where
  "di_at dm adx_len df i =
     (case (rolling_sum (length df) adx_len (dm df) i,
            rolling_sum (length df) adx_len (true_range df) i) of
        (Some dm_sum, Some tr_sum) \<Rightarrow> np_times_100 (np_divide dm_sum (tr_sum + epsilon))
      | _ \<Rightarrow> NaN)"

definition plus_di :: "nat \<Rightarrow> bar list \<Rightarrow> nat \<Rightarrow> npfloat" where
  "plus_di = di_at plus_dm_at"

definition minus_di :: "nat \<Rightarrow> bar list \<Rightarrow> nat \<Rightarrow> npfloat" where
  "minus_di = di_at minus_dm_at"

text \<open>
  \<open>df['chop14']\<close>:
  \<open>100 * np.log10(chop_sum_atr / (chop_range + 1e-10)) / np.log10(chop_len)\<close> with
  \<open>chop_len = 14\<close>. The factor \<open>100 / log10 14\<close> is positive and finite, so it keeps
  an infinity as it is; the logarithm of \<open>inf\<close> is \<open>inf\<close>, that of \<open>-inf\<close> or \<open>nan\<close> is
  \<open>nan\<close>.
\<close>

definition chop14 :: "bar list \<Rightarrow> nat \<Rightarrow> npfloat" where
  "chop14 df i =
     (case (rolling_sum (length df) 14 (true_range df) i,
            rolling_max (length df) 14 (\<lambda>j. bar_high (df ! j)) i,
            rolling_min (length df) 14 (\<lambda>j. bar_low (df ! j)) i) of
        (Some chop_sum_atr, Some chop_max_hi, Some chop_min_lo) \<Rightarrow>
          (let chop_range = chop_max_hi - chop_min_lo
           in case np_divide chop_sum_atr (chop_range + epsilon) of
                Fin q \<Rightarrow>
                  (case np_log10 q of
                     Fin l \<Rightarrow> Fin (100 * l / log 10 14)
                   | other \<Rightarrow> other)
              | PosInf \<Rightarrow> PosInf
              | NegInf \<Rightarrow> NaN
              | NaN \<Rightarrow> NaN)
      | _ \<Rightarrow> NaN)"

text \<open>A value is finite when it is neither an infinity nor \<open>nan\<close>.\<close>

fun is_finite :: "npfloat \<Rightarrow> bool" where
  "is_finite (Fin x) = True"
| "is_finite PosInf = False"
| "is_finite NegInf = False"
| "is_finite NaN = False"

section \<open>Signal engines: cooldown memory and position size\<close>

text \<open>
  The three \<open>generate_signal\<close> variants compute their gates from indicator columns
  (pandas, NumPy, TA-Lib) and then decide. The embedding takes the values the decision
  reads from the frame as a record of inputs, one field per local variable of the
  source, and models the decision itself: the early returns, the cooldown test on the
  memory, the position size and the assignments to \<open>last_signal_idx\<close> and
  \<open>last_signal_time\<close>. No gate depends on the cooldown memory. Times are in seconds.
\<close>

record signal_memory =
  last_signal_idx :: int
  last_signal_time :: "real option"

text \<open>\<open>self.last_signal_idx = -1; self.last_signal_time = None\<close>.\<close>

definition init_signal_memory :: signal_memory where
  "init_signal_memory = \<lparr>last_signal_idx = -1, last_signal_time = None\<rparr>"

text \<open>
  The dictionary a call returns: \<open>{'action': 'HOLD', 'reason': ...}\<close>, or an entry with
  action, entry, stop, target, size and reason (the other keys are constants or copies).
  A \<open>HOLD\<close> reason that interpolates numbers is kept by its fixed prefix.
\<close>

datatype signal = Hold string | Trade action real real real real string

text \<open>A float division; Python raises \<open>ZeroDivisionError\<close> on a zero divisor.\<close>

definition py_div :: "real \<Rightarrow> real \<Rightarrow> py_error + real" where
  "py_div a b = (if b = 0 then Inl ZeroDivisionError else Inr (a / b))"

text \<open>
  \<open>round(x, 2)\<close>: to two decimals, ties to the even neighbour (on the real number;
  the binary representation of the float is not modelled).
\<close>

definition py_round :: "real \<Rightarrow> int" where
  "py_round x =
     (let f = \<lfloor>x\<rfloor>; d = x - of_int f
      in if d < 1 / 2 then f else if d > 1 / 2 then f + 1
         else if even f then f else f + 1)"

definition py_round2 :: "real \<Rightarrow> real" where
  "py_round2 x = of_int (py_round (x * 100)) / 100"

subsection \<open>strategy\_backup.py\<close>

text \<open>\<open>UsdJpyQuantStrategy.calculate_position_size(risk_amount, entry, sl)\<close>.\<close>

definition calculate_position_size_backup :: "real \<Rightarrow> real \<Rightarrow> real \<Rightarrow> py_error + real" where
  "calculate_position_size_backup risk_amount entry sl =
     (if entry = 0 \<or> sl = 0 then Inr 0
      else
        (let risk_pips = \<bar>entry - sl\<bar> * 100; pip_value = 0.88
         in if risk_pips = 0 then Inr 0
            else (case py_div risk_amount risk_pips of
                    Inl e \<Rightarrow> Inl e
                  | Inr q \<Rightarrow>
                      (case py_div q pip_value of
                         Inl e \<Rightarrow> Inl e
                       | Inr position_size \<Rightarrow> Inr (min position_size 1.0)))))"

text \<open>The attributes \<open>__init__\<close> reads from the configuration.\<close>

record backup_config =
  bc_cooldown_bars :: int
  bc_min_hours_between_trades :: real
  bc_risk_pct :: real
  bc_sl_atr_mult :: real
  bc_tp_rr :: real

text \<open>
  What \<open>_generate_original_signal\<close> reads from the frame: \<open>len(df)\<close>, the hour of
  \<open>df['time'].iloc[-1]\<close>, the ATR ratio, \<open>df.iloc[-1]['date']\<close>, the close and the ATR
  of the last row, and the gates of the final decision under their names in the source.
\<close>

record backup_frame =
  bf_len :: nat
  bf_hour :: int
  bf_atr_ratio :: real
  bf_date :: real
  bf_close :: real
  bf_atr14 :: real
  bf_long_filters_pass :: bool
  bf_short_filters_pass :: bool
  bf_cross_fresh_long :: bool
  bf_pb_long :: bool
  bf_mom_long :: bool
  bf_bos_long :: bool
  bf_turbo_long :: bool
  bf_cross_fresh_short :: bool
  bf_pb_short :: bool
  bf_mom_short :: bool
  bf_bos_short :: bool
  bf_turbo_short :: bool

definition is_good_trading_hour :: "int \<Rightarrow> bool" where
  "is_good_trading_hour hour = ((8 \<le> hour \<and> hour < 16) \<or> (0 \<le> hour \<and> hour < 6))"

text \<open>The two cooldown tests, shared by the three variants.\<close>

definition cooldown_ok :: "int \<Rightarrow> real \<Rightarrow> int \<Rightarrow> real \<Rightarrow> signal_memory \<Rightarrow> bool" where
  "cooldown_ok cooldown_bars min_hours t current_time mem =
     (let bar_cooldown_ok = (t - last_signal_idx mem \<ge> cooldown_bars);
          time_cooldown_ok =
            (case last_signal_time mem of
               None \<Rightarrow> True
             | Some last_time \<Rightarrow> (current_time - last_time) / 3600 \<ge> min_hours)
      in bar_cooldown_ok \<and> time_cooldown_ok)"

text \<open>
  One entry branch of strategy\_backup.py: the memory is assigned first, then the
  position size is computed and tested.
\<close>

definition backup_entry ::
  "backup_config \<Rightarrow> backup_frame \<Rightarrow> action \<Rightarrow> string \<Rightarrow> (py_error + signal) \<times> signal_memory" where
  "backup_entry cfg f side reason =
     (let t = int (bf_len f) - 1;
          mem' = \<lparr>last_signal_idx = t, last_signal_time = Some (bf_date f)\<rparr>;
          sl_dist = bc_sl_atr_mult cfg * bf_atr14 f;
          risk_amount = 10000 * bc_risk_pct cfg;
          sl = (if side = BUY then bf_close f - sl_dist else bf_close f + sl_dist);
          tp = (if side = BUY then bf_close f + bc_tp_rr cfg * sl_dist
                else bf_close f - bc_tp_rr cfg * sl_dist)
      in case calculate_position_size_backup risk_amount (bf_close f) sl of
           Inl e \<Rightarrow> (Inl e, mem')
         | Inr position_size \<Rightarrow>
             if position_size \<le> 0.01 then (Inr (Hold ''Position size too small''), mem')
             else (Inr (Trade side (bf_close f) sl tp position_size reason), mem'))"

text \<open>
  \<open>UsdJpyQuantStrategy._generate_original_signal\<close> of strategy\_backup.py
  (\<open>generate_signal\<close> calls it and returns its result).
\<close>

definition generate_signal_backup ::
  "backup_config \<Rightarrow> backup_frame \<Rightarrow> signal_memory \<Rightarrow> (py_error + signal) \<times> signal_memory" where
  "generate_signal_backup cfg f mem =
     (if bf_len f < 400 then (Inr (Hold ''Need 400 bars''), mem)
      else if \<not> is_good_trading_hour (bf_hour f) then (Inr (Hold ''Outside trading hours''), mem)
      else if bf_atr_ratio f < (if 13 \<le> bf_hour f \<and> bf_hour f \<le> 17 then 0.9 else 0.8)
      then (Inr (Hold ''Low volatility''), mem)
      else
        (let t = int (bf_len f) - 1;
             can_trade = cooldown_ok (bc_cooldown_bars cfg) (bc_min_hours_between_trades cfg)
                           t (bf_date f) mem
         in if can_trade \<and> bf_long_filters_pass f
               \<and> ((bf_cross_fresh_long f \<and> bf_pb_long f \<and> bf_mom_long f \<and> bf_bos_long f)
                   \<or> bf_turbo_long f)
            then backup_entry cfg f BUY
                   ''PHANTOM NODE LONG: H1 Bull + ADX + ATR + Cross + PB + BOS''
            else if can_trade
                    \<and> (bf_short_filters_pass f
                       \<and> ((bf_cross_fresh_short f \<and> bf_pb_short f \<and> bf_mom_short f
                            \<and> bf_bos_short f)
                           \<or> bf_turbo_short f))
            then backup_entry cfg f SELL
                   ''PHANTOM NODE SHORT: H1 Bear + ADX + ATR + Cross + PB + BOS''
            else (Inr (Hold ''QUANT''), mem)))"

subsection \<open>strategy\_backup\_optimized.py\<close>

text \<open>\<open>UsdJpyQuantStrategy.calculate_position_size(risk_amount, entry, sl)\<close>.\<close>

definition calculate_position_size_optimized :: "real \<Rightarrow> real \<Rightarrow> real \<Rightarrow> py_error + real" where
  "calculate_position_size_optimized risk_amount entry sl =
     (if entry = 0 \<or> sl = 0 then Inr 0
      else
        (let risk_pips = \<bar>entry - sl\<bar> * 100
         in if risk_pips = 0 then Inr 0
            else (case py_div 1000 entry of
                    Inl e \<Rightarrow> Inl e
                  | Inr pip_value_usd \<Rightarrow>
                      (case py_div risk_amount (risk_pips * pip_value_usd) of
                         Inl e \<Rightarrow> Inl e
                       | Inr position_size \<Rightarrow> Inr (min position_size 1.0)))))"

text \<open>\<open>atr_ratio < vol_threshold\<close> on a NumPy float: false for \<open>nan\<close>.\<close>

definition np_less :: "npfloat \<Rightarrow> real \<Rightarrow> bool" where
  "np_less v c = (case v of Fin x \<Rightarrow> x < c | NegInf \<Rightarrow> True | PosInf \<Rightarrow> False | NaN \<Rightarrow> False)"

text \<open>
  What the decision of the optimized variant reads from the frame: the last value of
  \<open>df['atr14']\<close> and of its 50-row rolling mean (the ATR ratio is their quotient, a
  division of NumPy floats), the close, and the gates of the final decision under their
  names in the source. Its entry test also reads two indicator values, \<open>adx14\<close> and
  \<open>h1_rsi14\<close>.
\<close>

record optimized_frame =
  of_len :: nat
  of_hour :: int
  of_atr_ma :: real
  of_time :: real
  of_close :: real
  of_atr14 :: real
  of_adx14 :: real
  of_h1_rsi14 :: real
  of_long_filters_pass :: bool
  of_short_filters_pass :: bool
  of_cross_fresh_long :: bool
  of_pb_long :: bool
  of_mom_long :: bool
  of_bos_long :: bool
  of_cross_fresh_short :: bool
  of_pb_short :: bool
  of_mom_short :: bool
  of_bos_short :: bool

text \<open>
  One entry branch of the optimized variant. It assigns nothing to the cooldown memory
  (the class never does after \<open>__init__\<close>).
\<close>

definition optimized_entry ::
  "backup_config \<Rightarrow> optimized_frame \<Rightarrow> action \<Rightarrow> string \<Rightarrow> py_error + signal" where
  "optimized_entry cfg f side reason =
     (let sl_dist = bc_sl_atr_mult cfg * of_atr14 f;
          risk_amount = 10000 * bc_risk_pct cfg;
          sl = (if side = BUY then of_close f - sl_dist else of_close f + sl_dist);
          tp = (if side = BUY then of_close f + bc_tp_rr cfg * sl_dist
                else of_close f - bc_tp_rr cfg * sl_dist)
      in case calculate_position_size_optimized risk_amount (of_close f) sl of
           Inl e \<Rightarrow> Inl e
         | Inr position_size \<Rightarrow>
             if position_size \<le> 0.01 then Inr (Hold ''Position size too small'')
             else Inr (Trade side (of_close f) sl tp position_size reason))"

text \<open>
  \<open>UsdJpyQuantStrategy._generate_original_signal\<close> of strategy\_backup\_optimized.py.
  An entry test that fails falls through to the next \<open>if\<close>.
\<close>

definition generate_signal_optimized ::
  "backup_config \<Rightarrow> optimized_frame \<Rightarrow> signal_memory \<Rightarrow> (py_error + signal) \<times> signal_memory" where
  "generate_signal_optimized cfg f mem =
     (if of_len f < 400 then (Inr (Hold ''Need 400 bars''), mem)
      else if \<not> is_good_trading_hour (of_hour f) then (Inr (Hold ''Outside trading hours''), mem)
      else if np_less (np_divide (of_atr14 f) (of_atr_ma f)) 0.7
      then (Inr (Hold ''Low volatility''), mem)
      else
        (let t = int (of_len f) - 1;
             can_trade = cooldown_ok (bc_cooldown_bars cfg) (bc_min_hours_between_trades cfg)
                           t (of_time f) mem
         in if can_trade \<and> of_long_filters_pass f
               \<and> (of_cross_fresh_long f \<and> of_pb_long f \<and> of_mom_long f \<and> of_bos_long f
                   \<and> of_adx14 f > 25 \<and> of_h1_rsi14 f > 60)
            then (optimized_entry cfg f BUY ''PHANTOM NODE LONG (Fixed)'', mem)
            else if can_trade \<and> of_short_filters_pass f
                    \<and> (of_cross_fresh_short f \<and> of_pb_short f \<and> of_mom_short f
                        \<and> of_bos_short f \<and> of_adx14 f > 25 \<and> of_h1_rsi14 f < 40)
            then (optimized_entry cfg f SELL ''PHANTOM NODE SHORT (Fixed)'', mem)
            else (Inr (Hold ''Filters not met''), mem)))"

subsection \<open>strategy.py and strategy\_v10.py\<close>

text \<open>
  \<open>calculate_position_size(account_balance, entry_price, stop_loss, signal_strength)\<close>
  of \<open>PhantomNodeV10\<close> and of \<open>UsdJpyQuantStrategy\<close> (strategy.py): the same body, with
  the bounds 0.01 and 0.8 written as literals in the one and as \<open>min_position_size\<close>,
  \<open>max_position_size\<close> in the other, and \<open>risk_per_trade\<close> an attribute.
\<close>

definition calculate_position_size ::
  "real \<Rightarrow> real \<Rightarrow> real \<Rightarrow> real \<Rightarrow> real \<Rightarrow> py_error + real" where
  "calculate_position_size risk_per_trade account_balance entry_price stop_loss signal_strength =
     (let risk_amount = account_balance * risk_per_trade * signal_strength;
          risk_per_pip = \<bar>entry_price - stop_loss\<bar> * 100
      in if risk_per_pip = 0 then Inr 0.01
         else
           (let pip_value_per_lot = 10
            in case py_div risk_amount (risk_per_pip * pip_value_per_lot) of
                 Inl e \<Rightarrow> Inl e
               | Inr position_size_lots \<Rightarrow>
                   Inr (py_round2 (max 0.01 (min position_size_lots 0.8)))))"

text \<open>
  The columns of \<open>calculate_indicators\<close> (strategy.py and strategy\_v10.py compute the
  same ones, with TA-Lib and pandas) that a decision reads from a row.
\<close>

record indicators =
  ind_close :: real
  ind_ema_9 :: real
  ind_ema_21 :: real
  ind_ema_50 :: real
  ind_ema_200 :: real
  ind_atr :: real
  ind_atr_ma :: real
  ind_rsi :: real
  ind_stoch_k :: real
  ind_stoch_d :: real
  ind_adx :: real
  ind_plus_di :: real
  ind_minus_di :: real
  ind_volume_ratio :: real
  ind_macd :: real
  ind_macd_signal :: real
  ind_macd_hist :: real
  ind_bb_upper :: real
  ind_bb_lower :: real

text \<open>
  A candidate appended to \<open>signals\<close> in strategy.py: action, entry, stop, target,
  strength, type and reason.
\<close>

record candidate =
  cand_action :: action
  cand_entry :: real
  cand_sl :: real
  cand_tp :: real
  cand_strength :: real
  cand_type :: string
  cand_reason :: string

text \<open>
  What \<open>generate_signal\<close> of strategy.py reads from the frame: \<open>len(df)\<close>, the time of
  the last row (in seconds) and the indicators of the last row.
\<close>

record v10_frame =
  vf_len :: nat
  vf_time :: int
  vf_current :: indicators

text \<open>\<open>UsdJpyQuantStrategy.is_trading_session_active\<close> (strategy.py), on the hour.\<close>

definition session_active_hour :: "int \<Rightarrow> bool" where
  "session_active_hour hour =
     (let london = (7 \<le> hour \<and> hour < 16);
          ny = (13 \<le> hour \<and> hour < 22);
          tokyo = (0 \<le> hour \<and> hour < 9)
      in london \<or> ny \<or> tokyo)"

text \<open>
  The locals of \<open>generate_signal\<close> of strategy.py, each a function of the last row.
  The thresholds are the attributes \<open>__init__\<close> sets: \<open>adx_min = 22\<close>,
  \<open>volume_ratio_min = 1.1\<close>, \<open>rsi_bullish_range = (35, 75)\<close> and
  \<open>rsi_bearish_range = (25, 65)\<close>. The locals \<open>mtf_bullish\<close>, \<open>mtf_bearish\<close>,
  \<open>di_bullish\<close> and \<open>di_bearish\<close> are computed and never read.
\<close>

definition uptrend :: "indicators \<Rightarrow> bool" where
  "uptrend current \<longleftrightarrow>
     ind_ema_9 current > ind_ema_21 current \<and> ind_ema_21 current > ind_ema_50 current"

definition downtrend :: "indicators \<Rightarrow> bool" where
  "downtrend current \<longleftrightarrow>
     ind_ema_9 current < ind_ema_21 current \<and> ind_ema_21 current < ind_ema_50 current"

definition major_uptrend :: "indicators \<Rightarrow> bool" where
  "major_uptrend current \<longleftrightarrow> ind_close current > ind_ema_200 current"

definition major_downtrend :: "indicators \<Rightarrow> bool" where
  "major_downtrend current \<longleftrightarrow> ind_close current < ind_ema_200 current"

definition trend_strength :: "indicators \<Rightarrow> bool" where
  "trend_strength current \<longleftrightarrow> ind_adx current > 22"

definition volume_ok :: "indicators \<Rightarrow> bool" where
  "volume_ok current \<longleftrightarrow> ind_volume_ratio current > 1.1"

definition rsi_bullish :: "indicators \<Rightarrow> bool" where
  "rsi_bullish current \<longleftrightarrow> 35 < ind_rsi current \<and> ind_rsi current < 75"

definition rsi_bearish :: "indicators \<Rightarrow> bool" where
  "rsi_bearish current \<longleftrightarrow> 25 < ind_rsi current \<and> ind_rsi current < 65"

definition stoch_bullish :: "indicators \<Rightarrow> bool" where
  "stoch_bullish current \<longleftrightarrow>
     ind_stoch_k current > ind_stoch_d current \<and> ind_stoch_k current < 80"

definition stoch_bearish :: "indicators \<Rightarrow> bool" where
  "stoch_bearish current \<longleftrightarrow>
     ind_stoch_k current < ind_stoch_d current \<and> ind_stoch_k current > 20"

definition macd_bullish :: "indicators \<Rightarrow> bool" where
  "macd_bullish current \<longleftrightarrow> ind_macd current > ind_macd_signal current"

definition macd_bearish :: "indicators \<Rightarrow> bool" where
  "macd_bearish current \<longleftrightarrow> ind_macd current < ind_macd_signal current"

text \<open>\<open># Volatility filter\<close>.\<close>

definition good_volatility :: "indicators \<Rightarrow> bool" where
  "good_volatility current \<longleftrightarrow> ind_atr current > ind_atr_ma current * 0.8"

text \<open>The six entry conditions of strategy.py; each contains \<open>good_volatility\<close>.\<close>

definition high_conf_bullish :: "indicators \<Rightarrow> bool" where
  "high_conf_bullish current \<longleftrightarrow>
     uptrend current \<and> major_uptrend current \<and> trend_strength current \<and> volume_ok current
     \<and> rsi_bullish current \<and> stoch_bullish current \<and> good_volatility current"

definition high_conf_bearish :: "indicators \<Rightarrow> bool" where
  "high_conf_bearish current \<longleftrightarrow>
     downtrend current \<and> major_downtrend current \<and> trend_strength current \<and> volume_ok current
     \<and> rsi_bearish current \<and> stoch_bearish current \<and> good_volatility current"

definition med_conf_bullish :: "indicators \<Rightarrow> bool" where
  "med_conf_bullish current \<longleftrightarrow>
     uptrend current \<and> trend_strength current \<and> volume_ok current
     \<and> rsi_bullish current \<and> macd_bullish current \<and> good_volatility current"

definition med_conf_bearish :: "indicators \<Rightarrow> bool" where
  "med_conf_bearish current \<longleftrightarrow>
     downtrend current \<and> trend_strength current \<and> volume_ok current
     \<and> rsi_bearish current \<and> macd_bearish current \<and> good_volatility current"

definition pullback_bullish :: "indicators \<Rightarrow> bool" where
  "pullback_bullish current \<longleftrightarrow>
     major_uptrend current \<and> ind_rsi current < 45 \<and> ind_stoch_k current < 35
     \<and> ind_close current > ind_bb_lower current \<and> volume_ok current \<and> good_volatility current"

definition pullback_bearish :: "indicators \<Rightarrow> bool" where
  "pullback_bearish current \<longleftrightarrow>
     major_downtrend current \<and> ind_rsi current > 55 \<and> ind_stoch_k current > 65
     \<and> ind_close current < ind_bb_upper current \<and> volume_ok current \<and> good_volatility current"

text \<open>
  The dictionary of an entry: the entry is the close, the stop is \<open>k\<close> ATR below it for
  a \<open>BUY\<close> and above it for a \<open>SELL\<close>, the target \<open>k * tp_rr\<close> ATR on the other side.
\<close>

definition entry_candidate ::
  "indicators \<Rightarrow> real \<Rightarrow> action \<Rightarrow> real \<Rightarrow> real \<Rightarrow> string \<Rightarrow> string \<Rightarrow> candidate" where
  "entry_candidate current tp_rr side k strength typ reason =
     \<lparr>cand_action = side, cand_entry = ind_close current,
      cand_sl = (if side = BUY then ind_close current - ind_atr current * k
                 else ind_close current + ind_atr current * k),
      cand_tp = (if side = BUY then ind_close current + ind_atr current * k * tp_rr
                 else ind_close current - ind_atr current * k * tp_rr),
      cand_strength = strength, cand_type = typ, cand_reason = reason\<rparr>"

text \<open>
  The list \<open>signals\<close>: at most one bullish candidate (\<open>if\<close> / \<open>elif\<close> / \<open>elif\<close>), then
  at most one bearish. The stop of a pullback entry is 2.5 ATR.
\<close>

definition bullish_candidates :: "real \<Rightarrow> real \<Rightarrow> indicators \<Rightarrow> candidate list" where
  "bullish_candidates stop_mult tp_rr current =
     (if high_conf_bullish current
      then [entry_candidate current tp_rr BUY stop_mult 1.6
              ''High Confidence'' ''Strong uptrend with momentum'']
      else if pullback_bullish current
      then [entry_candidate current tp_rr BUY 2.5 1.3 ''Pullback'' ''Pullback in major uptrend'']
      else if med_conf_bullish current
      then [entry_candidate current tp_rr BUY stop_mult 1.4
              ''Medium Confidence'' ''Moderate bullish momentum'']
      else [])"

definition bearish_candidates :: "real \<Rightarrow> real \<Rightarrow> indicators \<Rightarrow> candidate list" where
  "bearish_candidates stop_mult tp_rr current =
     (if high_conf_bearish current
      then [entry_candidate current tp_rr SELL stop_mult 1.6
              ''High Confidence'' ''Strong downtrend with momentum'']
      else if pullback_bearish current
      then [entry_candidate current tp_rr SELL 2.5 1.3 ''Pullback'' ''Pullback in major downtrend'']
      else if med_conf_bearish current
      then [entry_candidate current tp_rr SELL stop_mult 1.4
              ''Medium Confidence'' ''Moderate bearish momentum'']
      else [])"

definition build_candidates :: "real \<Rightarrow> real \<Rightarrow> v10_frame \<Rightarrow> candidate list" where
  "build_candidates stop_mult tp_rr f =
     bullish_candidates stop_mult tp_rr (vf_current f)
     @ bearish_candidates stop_mult tp_rr (vf_current f)"

text \<open>
  \<open>UsdJpyQuantStrategy.generate_signal\<close> of strategy.py, with the attributes of
  \<open>__init__\<close> as literals (cooldown 2 bars and 0.5 hours, risk 1 percent, stop 3 ATR,
  reward 4, minimum size 0.01) and \<open>config.get('balance', 10000)\<close> as \<open>account_balance\<close>.
  \<open>signals.sort(key=..., reverse=True)\<close> is stable; the strongest candidate is first.
\<close>

definition generate_signal ::
  "real \<Rightarrow> v10_frame \<Rightarrow> signal_memory \<Rightarrow> (py_error + signal) \<times> signal_memory" where
  "generate_signal account_balance f mem =
     (if vf_len f < 100 then (Inr (Hold ''Insufficient data''), mem)
      else if \<not> session_active_hour ((vf_time f div 3600) mod 24)
      then (Inr (Hold ''Outside trading session''), mem)
      else if \<not> cooldown_ok 2 0.5 (int (vf_len f) - 1) (real_of_int (vf_time f)) mem
      then (Inr (Hold ''Cooldown period''), mem)
      else
        (case sort_key (\<lambda>c. - cand_strength c) (build_candidates 3.0 4.0 f) of
           [] \<Rightarrow> (Inr (Hold ''No setup''), mem)
         | signal # rest \<Rightarrow>
             (case calculate_position_size 0.01 account_balance (cand_entry signal)
                     (cand_sl signal) (cand_strength signal) of
                Inl e \<Rightarrow> (Inl e, mem)
              | Inr position_size \<Rightarrow>
                  if position_size < 0.01
                  then (Inr (Hold ''Position size too small''), mem)
                  else (Inr (Trade (cand_action signal) (cand_entry signal) (cand_sl signal)
                               (cand_tp signal) position_size
                               (''PHANTOM NODE V10 - '' @ cand_type signal @ '': ''
                                @ cand_reason signal)),
                        \<lparr>last_signal_idx = int (vf_len f) - 1,
                         last_signal_time = Some (real_of_int (vf_time f))\<rparr>))))"

section \<open>Concrete inputs\<close>

text \<open>
  A long and a short USD/JPY position of 0.1 lots at 150.00 with the stop one yen away,
  as a signal opens them, and a trailing configuration.
\<close>

definition example_long :: position where
  "example_long =
     \<lparr>pos_action = BUY, pos_entry = 150, pos_sl = 149, pos_tp = 154, pos_size = 0.1,
      pos_entry_time = 0, pos_atr = Some 0.2, pos_breakeven = False,
      pos_partial_taken = False, pos_partial2_taken = False\<rparr>"



text \<open>
  A replay of 504 rows: 500 rows of warm-up, then three rows on Thursday 4 January 2024
  (day 19726; the second one falls through the stop) and one row on the next day. The
  strategy emits a BUY at the close with the stop one yen below and the target three yen
  above on every slice; the daily loss limit is 500.
\<close>

definition example_config :: bt_config where
  "example_config =
     \<lparr>cfg_max_daily_loss = 500, cfg_risk_per_trade = 0.01, cfg_initial_equity = 10000,
      cfg_target_start = None\<rparr>"

definition example_row :: "int \<Rightarrow> real \<Rightarrow> real \<Rightarrow> bar" where
  "example_row t low high =
     \<lparr>bar_time = t, bar_open = 150, bar_high = high, bar_low = low, bar_close = 150,
      bar_atr14 = None\<rparr>"

definition example_df :: "bar list" where
  "example_df =
     replicate 500 (example_row 1704240000000 149.8 150.2)
     @ [example_row 1704326400000 149.8 150.2,
        example_row 1704327300000 148.9 150.2,
        example_row 1704328200000 149.8 150.2,
        example_row 1704412800000 149.8 150.2]"

definition example_always_buy :: "bar list \<Rightarrow> cli_signal" where
  "example_always_buy slice =
     \<lparr>sig_action = BUY, sig_entry = bar_close (last slice),
      sig_sl = bar_close (last slice) - 1, sig_tp = bar_close (last slice) + 3\<rparr>"

text \<open>
  A long trade of the replayer at 150.00 with the stop at 149.00 and the target at
  153.00, the same trade in the vectorized backtester, and a bar from 148.90 to 153.10
  that reaches both.
\<close>

definition example_cli_trade :: cli_trade where
  "example_cli_trade =
     \<lparr>ct_id = 1, ct_action = BUY, ct_entry = 150, ct_entryTime = 1704326400000,
      ct_sl = 149, ct_tp = 153, ct_units = 100, ct_trailing = None,
      ct_exitPrice = None, ct_exitTime = None, ct_exitReason = None, ct_pnl = None\<rparr>"

definition example_vb_trade :: vb_trade where
  "example_vb_trade =
     \<lparr>vb_type = BUY, vb_entry_price = 150, vb_entry_date = 1704326400000,
      vb_sl = 149, vb_tp = 153, vb_size = 100\<rparr>"

definition example_tie_bar :: bar where
  "example_tie_bar = example_row 1704327300000 148.9 153.1"

text \<open>The states of the example replay after rows 500, 501, 502 and 503.\<close>

definition example_state_501 :: bt_state where
  "example_state_501 =
     \<lparr>bt_equity = 10000,
      bt_active_trade = Some example_cli_trade,
      bt_trades = [], bt_equity_curve = [(1704326400000, 10000)],
      bt_daily_pnl = 0, bt_last_date = Some 19726\<rparr>"

definition example_state_502 :: bt_state where
  "example_state_502 =
     \<lparr>bt_equity = 10000 - 100000 / 149,
      bt_active_trade = None,
      bt_trades = [example_cli_trade\<lparr>ct_exitPrice := Some 149, ct_exitTime := Some 1704327300000,
                     ct_exitReason := Some ''Stop Loss'', ct_pnl := Some (- 100000 / 149)\<rparr>],
      bt_equity_curve = [(1704326400000, 10000), (1704327300000, 10000 - 100000 / 149)],
      bt_daily_pnl = - 100000 / 149, bt_last_date = Some 19726\<rparr>"

definition example_state_503 :: bt_state where
  "example_state_503 =
     example_state_502\<lparr>bt_equity_curve :=
        bt_equity_curve example_state_502 @ [(1704328200000, 10000 - 100000 / 149)]\<rparr>"

definition example_state_504 :: bt_state where
  "example_state_504 =
     example_state_503
       \<lparr>bt_active_trade := Some (example_cli_trade
            \<lparr>ct_id := 2, ct_entryTime := 1704412800000, ct_units := 93\<rparr>),
        bt_equity_curve :=
          bt_equity_curve example_state_503 @ [(1704412800000, 10000 - 100000 / 149)],
        bt_daily_pnl := 0, bt_last_date := Some 19727\<rparr>"

text \<open>
  A frame of 1000 bars at 09:00 UTC on 4 January 2024 on which every long gate of
  strategy\_backup.py passes, with a close of 150.00 and an ATR of 0.60, under a
  configuration that risks 0.01 percent per trade.
\<close>

definition example_backup_config :: backup_config where
  "example_backup_config =
     \<lparr>bc_cooldown_bars = 48, bc_min_hours_between_trades = 12, bc_risk_pct = 0.0001,
      bc_sl_atr_mult = 2.1, bc_tp_rr = 3.0\<rparr>"

definition example_backup_frame :: backup_frame where
  "example_backup_frame =
     \<lparr>bf_len = 1000, bf_hour = 9, bf_atr_ratio = 1.0, bf_date = 1704358800,
      bf_close = 150, bf_atr14 = 0.6,
      bf_long_filters_pass = True, bf_short_filters_pass = False,
      bf_cross_fresh_long = True, bf_pb_long = True, bf_mom_long = True, bf_bos_long = True,
      bf_turbo_long = False,
      bf_cross_fresh_short = False, bf_pb_short = False, bf_mom_short = False,
      bf_bos_short = False, bf_turbo_short = False\<rparr>"

text \<open>
  Two frames for strategy\_backup\_optimized.py at the same time. On the first the
  market has been flat for the last 14 bars (ATR 0 against a 50-row mean of 0.30). On
  the second the ATR is 0.60 and every long entry condition holds; the configuration
  beside it sets \<open>atr_multiplier_sl\<close> to 0, which puts the stop on the entry.
\<close>

definition example_flat_optimized_frame :: optimized_frame where
  "example_flat_optimized_frame =
     \<lparr>of_len = 1000, of_hour = 9, of_atr_ma = 0.3, of_time = 1704358800,
      of_close = 150, of_atr14 = 0, of_adx14 = 10, of_h1_rsi14 = 50,
      of_long_filters_pass = False, of_short_filters_pass = False,
      of_cross_fresh_long = False, of_pb_long = True, of_mom_long = False, of_bos_long = False,
      of_cross_fresh_short = False, of_pb_short = True, of_mom_short = False,
      of_bos_short = False\<rparr>"

definition example_optimized_frame :: optimized_frame where
  "example_optimized_frame =
     \<lparr>of_len = 1000, of_hour = 9, of_atr_ma = 0.6, of_time = 1704358800,
      of_close = 150, of_atr14 = 0.6, of_adx14 = 30, of_h1_rsi14 = 65,
      of_long_filters_pass = True, of_short_filters_pass = False,
      of_cross_fresh_long = True, of_pb_long = True, of_mom_long = True, of_bos_long = True,
      of_cross_fresh_short = False, of_pb_short = False, of_mom_short = False,
      of_bos_short = False\<rparr>"

definition example_zero_stop_config :: backup_config where
  "example_zero_stop_config =
     \<lparr>bc_cooldown_bars = 16, bc_min_hours_between_trades = 4, bc_risk_pct = 0.01,
      bc_sl_atr_mult = 0, bc_tp_rr = 3.5\<rparr>"

text \<open>Fourteen identical bars at 150.00: a window in which no price moves.\<close>

definition example_flat_df :: "bar list" where
  "example_flat_df = replicate 14 (example_row 1704326400000 150 150)"

section \<open>Properties of the risk governor\<close>


lemma fold_max_ge: "(a::real) \<le> fold max fs a"
  by (induction fs arbitrary: a) (auto intro: order_trans[OF max.cobounded2])

lemma max_factor_ge_one: "\<forall>f \<in> set fs. 1 \<le> f \<Longrightarrow> 1 \<le> max_factor fs"
  by (cases fs) (auto simp: max_factor_def intro: order_trans[OF _ fold_max_ge])

lemma cooldown_factors_ge_one: "\<forall>f \<in> set (cooldown_factors s). 1 \<le> f"
  by (auto simp: cooldown_factors_def)

lemma should_adapt_cooldown_range:
  assumes "cooldown_inv s"
  shows "5 \<le> fst (should_adapt_cooldown d s) \<and> fst (should_adapt_cooldown d s) \<le> 60"
proof -
  define c where "c = (case adaptive_cooldowns s d of None \<Rightarrow> base_cooldown s | Some c \<Rightarrow> c)"
  define m where "m = max_factor (cooldown_factors s)"
  have c: "5 \<le> c" "c \<le> 60"
    using assms by (auto simp: c_def cooldown_inv_def split: option.splits)
  have m: "1 \<le> m"
    unfolding m_def by (rule max_factor_ge_one[OF cooldown_factors_ge_one])
  have "5 * 1 \<le> c * m" using c m by (intro mult_mono) auto
  then have lo: "5 \<le> min (c * m) 60" by simp
  have hi: "min (c * m) 60 \<le> 60" by simp
  show ?thesis
    using lo hi assms
    by (auto simp: should_adapt_cooldown_def Let_def c_def[symmetric] m_def[symmetric] cooldown_inv_def)
qed

lemma should_adapt_cooldown_inv:
  assumes "cooldown_inv s"
  shows "cooldown_inv (snd (should_adapt_cooldown d s))"
  using should_adapt_cooldown_range[OF assms, of d] assms
  by (auto simp: should_adapt_cooldown_def Let_def cooldown_inv_def)

lemma update_performance_inv:
  "cooldown_inv s \<Longrightarrow> cooldown_inv (snd (update_performance r p b now s))"
  by (auto simp: update_performance_def Let_def cooldown_inv_def)

lemma is_locked_out_state:
  "snd (is_locked_out d b now s) = s \<or> snd (is_locked_out d b now s) = snd (should_adapt_cooldown d s)"
  by (auto simp: is_locked_out_def Let_def split: option.splits prod.splits)

lemma is_locked_out_inv:
  "cooldown_inv s \<Longrightarrow> cooldown_inv (snd (is_locked_out d b now s))"
  using is_locked_out_state[of d b now s] should_adapt_cooldown_inv[of s d] by auto

lemma register_trade_inv: "cooldown_inv s \<Longrightarrow> cooldown_inv (register_trade d now s)"
  by (simp add: register_trade_def cooldown_inv_def)

lemma apply_risk_op_inv: "cooldown_inv s \<Longrightarrow> cooldown_inv (apply_risk_op x s)"
  by (cases x)
     (simp_all add: update_performance_inv should_adapt_cooldown_inv is_locked_out_inv
        register_trade_inv)

lemma run_risk_ops_inv: "cooldown_inv s \<Longrightarrow> cooldown_inv (run_risk_ops ops s)"
  unfolding run_risk_ops_def
  by (induction ops arbitrary: s) (simp_all add: apply_risk_op_inv)

lemma init_risk_manager_inv: "cooldown_inv init_risk_manager"
  by (simp add: cooldown_inv_def init_risk_manager_def)

lemma should_adapt_cooldown_stored:
  "adaptive_cooldowns (snd (should_adapt_cooldown d s)) d = Some (fst (should_adapt_cooldown d s))"
  by (simp add: should_adapt_cooldown_def Let_def)

text \<open>
  C7. In every state \<open>s\<close> that a sequence of \<open>update_performance\<close>,
  \<open>should_adapt_cooldown\<close>, \<open>is_locked_out\<close> and \<open>register_trade\<close> calls reaches
  from a fresh governor, \<open>base_cooldown\<close> is 5 and \<open>max_cooldown\<close> is 60, the value
  that \<open>should_adapt_cooldown\<close> returns for any direction lies in
  \<open>[base_cooldown, max_cooldown]\<close> and is the value stored for that direction, and every
  value already stored in \<open>adaptive_cooldowns\<close> lies in that interval too.
\<close>

theorem adaptive_cooldown_within_bounds:
  "(let s = run_risk_ops ops init_risk_manager;
        r = should_adapt_cooldown d s
    in base_cooldown s = 5 \<and> max_cooldown s = 60
       \<and> base_cooldown s \<le> fst r \<and> fst r \<le> max_cooldown s
       \<and> adaptive_cooldowns (snd r) d = Some (fst r)
       \<and> (case adaptive_cooldowns s d' of
             None \<Rightarrow> True
           | Some v \<Rightarrow> base_cooldown s \<le> v \<and> v \<le> max_cooldown s))"
proof -
  have inv: "cooldown_inv (run_risk_ops ops init_risk_manager)"
    by (rule run_risk_ops_inv[OF init_risk_manager_inv])
  show ?thesis
    using inv should_adapt_cooldown_range[OF inv, of d]
    by (auto simp: Let_def should_adapt_cooldown_stored cooldown_inv_def split: option.splits)
qed

text \<open>
  Two losses, then three adaptations of the BUY cooldown: 5, 7.5, 11.25, 16.875 minutes.
\<close>

theorem adaptive_cooldown_within_bounds_witness:
  "(let s = run_risk_ops
              [UpdatePerformance ''LOSS'' (-50) 9950 0, UpdatePerformance ''LOSS'' (-50) 9900 60,
               RegisterTrade ''BUY'' 120, ShouldAdaptCooldown ''BUY'', ShouldAdaptCooldown ''BUY'']
              init_risk_manager;
        r = should_adapt_cooldown ''BUY'' s
    in fst r = 16.875 \<and> adaptive_cooldowns s ''BUY'' = Some 11.25
       \<and> base_cooldown s \<le> fst r \<and> fst r \<le> max_cooldown s)"
  using adaptive_cooldown_within_bounds
    [of "[UpdatePerformance ''LOSS'' (-50) 9950 0, UpdatePerformance ''LOSS'' (-50) 9900 60,
          RegisterTrade ''BUY'' 120, ShouldAdaptCooldown ''BUY'', ShouldAdaptCooldown ''BUY'']"
        "''BUY''" "''BUY''"]
  by (simp add: Let_def run_risk_ops_def update_performance_def should_adapt_cooldown_def
        register_trade_def init_risk_manager_def cooldown_factors_def max_factor_def
        calculate_win_rate_def calculate_avg_win_loss_ratio_def last_n_def)


lemma should_adapt_cooldown_losses:
  "consecutive_losses (snd (should_adapt_cooldown d s)) = consecutive_losses s"
  by (simp add: should_adapt_cooldown_def Let_def)

lemma is_locked_out_losses:
  "consecutive_losses (snd (is_locked_out d b now s)) = consecutive_losses s"
  using is_locked_out_state[of d b now s] by (auto simp: should_adapt_cooldown_losses)

lemma apply_risk_op_losses:
  "\<not> ingests_win x \<Longrightarrow> consecutive_losses s \<le> consecutive_losses (apply_risk_op x s)"
  by (cases x)
     (auto simp: update_performance_def Let_def should_adapt_cooldown_losses
        is_locked_out_losses register_trade_def)

lemma run_risk_ops_losses:
  "list_all (\<lambda>x. \<not> ingests_win x) ops \<Longrightarrow>
   consecutive_losses s \<le> consecutive_losses (run_risk_ops ops s)"
  unfolding run_risk_ops_def
proof (induction ops arbitrary: s)
  case Nil
  then show ?case by simp
next
  case (Cons x xs)
  have "consecutive_losses s \<le> consecutive_losses (apply_risk_op x s)"
    using Cons.prems by (simp add: apply_risk_op_losses)
  also have "\<dots> \<le> consecutive_losses (fold apply_risk_op xs (apply_risk_op x s))"
    using Cons.prems by (intro Cons.IH) simp
  finally show ?case by simp
qed

lemma update_performance_loss:
  "consecutive_losses (snd (update_performance ''LOSS'' p b now s)) = consecutive_losses s + 1"
  by (simp add: update_performance_def Let_def)

lemma run_risk_ops_append:
  "run_risk_ops (xs @ ys) s = run_risk_ops ys (run_risk_ops xs s)"
  by (simp add: run_risk_ops_def)

lemma three_losses_streak:
  assumes "cooldown_inv s"
  shows "3 \<le> consecutive_losses
           (run_risk_ops [UpdatePerformance ''LOSS'' p1 b1 t1, UpdatePerformance ''LOSS'' p2 b2 t2,
                          UpdatePerformance ''LOSS'' p3 b3 t3] s)"
  using assms by (simp add: run_risk_ops_def update_performance_loss cooldown_inv_def)

lemma is_locked_out_streak:
  assumes "consecutive_loss_limit s \<le> consecutive_losses s"
  shows "fst (fst (is_locked_out d b now s)) \<and> snd (is_locked_out d b now s) = s
     \<and> snd (fst (is_locked_out d b now s)) =
         (case b of
            None \<Rightarrow> Protection (consecutive_losses s)
          | Some bal \<Rightarrow>
              if bal \<noteq> 0 \<and> account_peak s > 0
                 \<and> (account_peak s - bal) / account_peak s > loss_threshold s
              then Emergency ((account_peak s - bal) / account_peak s * 100)
              else Protection (consecutive_losses s))"
  using assms by (auto simp: is_locked_out_def Let_def split: option.splits)

text \<open>
  C6 (as amended). After any history, three consecutive \<open>LOSS\<close> outcomes and any later
  calls that ingest no \<open>WIN\<close>, every \<open>is_locked_out\<close> call, for any direction, balance
  and clock reading, returns locked and leaves the state unchanged. The emergency
  drawdown check comes first: when the balance is given, non-zero, the peak is positive
  and the drawdown from the peak exceeds \<open>loss_threshold\<close>, the reason is the emergency
  one; in every other case it is the consecutive-loss protection with the streak length.
  The adaptive cooldown is not consulted.
\<close>

theorem three_losses_lock_out:
  assumes "list_all (\<lambda>x. \<not> ingests_win x) later"
  shows "(let s = run_risk_ops
                    (history @ [UpdatePerformance ''LOSS'' p1 b1 t1,
                                UpdatePerformance ''LOSS'' p2 b2 t2,
                                UpdatePerformance ''LOSS'' p3 b3 t3] @ later)
                    init_risk_manager;
              r = is_locked_out d b now s
          in fst (fst r) \<and> snd r = s
             \<and> snd (fst r) =
                 (case b of
                    None \<Rightarrow> Protection (consecutive_losses s)
                  | Some bal \<Rightarrow>
                      if bal \<noteq> 0 \<and> account_peak s > 0
                         \<and> (account_peak s - bal) / account_peak s > loss_threshold s
                      then Emergency ((account_peak s - bal) / account_peak s * 100)
                      else Protection (consecutive_losses s)))"
proof -
  define s0 where "s0 = run_risk_ops history init_risk_manager"
  define s3 where "s3 = run_risk_ops [UpdatePerformance ''LOSS'' p1 b1 t1,
                                UpdatePerformance ''LOSS'' p2 b2 t2,
                                UpdatePerformance ''LOSS'' p3 b3 t3] s0"
  define s where "s = run_risk_ops later s3"
  have inv0: "cooldown_inv s0"
    unfolding s0_def by (rule run_risk_ops_inv[OF init_risk_manager_inv])
  have "3 \<le> consecutive_losses s3"
    unfolding s3_def by (rule three_losses_streak[OF inv0])
  also have "\<dots> \<le> consecutive_losses s"
    unfolding s_def by (rule run_risk_ops_losses[OF assms])
  finally have streak: "3 \<le> consecutive_losses s" .
  have "cooldown_inv s"
    unfolding s_def s3_def by (intro run_risk_ops_inv inv0)
  then have "consecutive_loss_limit s = 3" by (simp add: cooldown_inv_def)
  with streak have "consecutive_loss_limit s \<le> consecutive_losses s" by simp
  then have locked: "fst (fst (is_locked_out d b now s)) \<and> snd (is_locked_out d b now s) = s
     \<and> snd (fst (is_locked_out d b now s)) =
         (case b of
            None \<Rightarrow> Protection (consecutive_losses s)
          | Some bal \<Rightarrow>
              if bal \<noteq> 0 \<and> account_peak s > 0
                 \<and> (account_peak s - bal) / account_peak s > loss_threshold s
              then Emergency ((account_peak s - bal) / account_peak s * 100)
              else Protection (consecutive_losses s))"
    by (rule is_locked_out_streak)
  have eq: "run_risk_ops
              (history @ [UpdatePerformance ''LOSS'' p1 b1 t1,
                          UpdatePerformance ''LOSS'' p2 b2 t2,
                          UpdatePerformance ''LOSS'' p3 b3 t3] @ later)
              init_risk_manager = s"
    by (simp only: run_risk_ops_append s_def s3_def s0_def)
  show ?thesis
    unfolding Let_def eq by (rule locked)
qed

text \<open>The definitions a concrete run of the governor unfolds.\<close>

lemmas risk_eval_defs = Let_def run_risk_ops_def update_performance_def should_adapt_cooldown_def
        register_trade_def init_risk_manager_def cooldown_factors_def max_factor_def
        calculate_win_rate_def calculate_avg_win_loss_ratio_def last_n_def is_locked_out_def

text \<open>
  A win, three small losses and a registered SELL trade: locked by the streak a million
  seconds later, with or without the balance.
\<close>

theorem three_losses_lock_out_witness:
  "(let s = run_risk_ops
              ([UpdatePerformance ''WIN'' 80 10080 0]
               @ [UpdatePerformance ''LOSS'' (-10) 10070 60, UpdatePerformance ''LOSS'' (-10) 10060 120,
                  UpdatePerformance ''LOSS'' (-10) 10050 180]
               @ [RegisterTrade ''SELL'' 200])
              init_risk_manager
    in is_locked_out ''SELL'' (Some 10050) 1000000 s = ((True, Protection 3), s)
       \<and> is_locked_out ''BUY'' None 1000000 s = ((True, Protection 3), s))"
  using three_losses_lock_out
    [of "[RegisterTrade ''SELL'' 200]" "[UpdatePerformance ''WIN'' 80 10080 0]"
        "-10" 10070 60 "-10" 10060 120 "-10" 10050 180 "''SELL''" "Some 10050" 1000000]
  by (simp add: risk_eval_defs)

text \<open>
  C6 as stated fails: three losses that take the balance from 9900 to 9700 leave a
  drawdown of 2.02 percent from the peak, and \<open>is_locked_out\<close> called with that balance
  (as the live loop calls it) answers with the emergency reason, not with the
  consecutive-loss one.
\<close>

theorem three_losses_emergency_reason_counterexample:
  "(let s = run_risk_ops
              [UpdatePerformance ''LOSS'' (-100) 9900 0, UpdatePerformance ''LOSS'' (-100) 9800 60,
               UpdatePerformance ''LOSS'' (-100) 9700 120]
              init_risk_manager
    in consecutive_losses s = 3
       \<and> fst (is_locked_out ''BUY'' (Some 9700) 180 s) = (True, Emergency (200 / 99))
       \<and> snd (fst (is_locked_out ''BUY'' (Some 9700) 180 s)) \<noteq> Protection 3)"
  by (simp add: risk_eval_defs)

text \<open>
  C10. A balance of \<open>0\<close> is treated like an absent balance: \<open>is_locked_out\<close> returns
  the same verdict and state for both, the reason is never the emergency one, and the
  verdict is the consecutive-loss check followed by the adaptive cooldown check.
\<close>

theorem zero_balance_skips_emergency:
  "is_locked_out d (Some 0) now s = is_locked_out d None now s
   \<and> (\<forall>x. snd (fst (is_locked_out d None now s)) \<noteq> Emergency x)
   \<and> (\<forall>x. snd (fst (is_locked_out d (Some 0) now s)) \<noteq> Emergency x)
   \<and> fst (is_locked_out d None now s) =
       (if consecutive_losses s \<ge> consecutive_loss_limit s
        then (True, Protection (consecutive_losses s))
        else case last_trade_time s d of
               None \<Rightarrow> (False, NoReason)
             | Some last_trade \<Rightarrow>
                 if (now - last_trade) / 60 < fst (should_adapt_cooldown d s)
                 then (True, AdaptiveCooldown (fst (should_adapt_cooldown d s) - (now - last_trade) / 60)
                               (calculate_win_rate 10 (snd (should_adapt_cooldown d s))))
                 else (False, NoReason))"
  by (auto simp: is_locked_out_def Let_def split: option.splits prod.splits)

text \<open>
  With a peak of 10000, a balance of 0 does not lock, while a balance of 1 (a drawdown of
  99.99 percent) triggers the emergency lockout.
\<close>

theorem zero_balance_skips_emergency_witness:
  "(let s = run_risk_ops [UpdatePerformance ''WIN'' 100 10000 0] init_risk_manager
    in account_peak s = 10000
       \<and> is_locked_out ''BUY'' (Some 0) 60 s = ((False, NoReason), s)
       \<and> is_locked_out ''BUY'' None 60 s = ((False, NoReason), s)
       \<and> fst (is_locked_out ''BUY'' (Some 1) 60 s) = (True, Emergency 99.99))"
  using zero_balance_skips_emergency
    [of "''BUY''" 60 "run_risk_ops [UpdatePerformance ''WIN'' 100 10000 0] init_risk_manager"]
  by (simp add: risk_eval_defs)
section \<open>Properties of the position lifecycle\<close>

lemma trail_tier_fields [simp]:
  "pos_action (trail_tier k atr cp p) = pos_action p"
  "pos_entry (trail_tier k atr cp p) = pos_entry p"
  "pos_breakeven (trail_tier k atr cp p) = pos_breakeven p"
  by (simp_all add: trail_tier_def Let_def)



lemma move_to_breakeven_fields [simp]:
  "pos_action (move_to_breakeven pips rp p) = pos_action p"
  "pos_entry (move_to_breakeven pips rp p) = pos_entry p"
  by (simp_all add: move_to_breakeven_def)

lemma trail_after_fields [simp]:
  "pos_action (trail_after n k pips rp atr cp p) = pos_action p"
  "pos_entry (trail_after n k pips rp atr cp p) = pos_entry p"
  "pos_breakeven (trail_after n k pips rp atr cp p) = pos_breakeven p"
  by (simp_all add: trail_after_def)





lemma update_stops_fields [simp]:
  "pos_action (update_stops p cp) = pos_action p"
  "pos_entry (update_stops p cp) = pos_entry p"
  by (simp_all add: update_stops_def Let_def)















text \<open>
  C2 fails on the code. Breakeven tests \<open>abs(pips) >= risk_pips\<close>, so it fires at a
  loss of 1R as well as at a profit of 1R. A long at 150.00 with the stop at 149.00 and
  the price at 148.90 is 110 pips under water: the stop is moved up to the entry, the
  stop-loss check that follows sees the price below it, and the trade is closed at
  150.00 with a PnL of 0 instead of the loss.
\<close>

theorem breakeven_fires_at_a_loss:
  "(let p = example_long\<lparr>pos_atr := None\<rparr>
    in position_pips p 148.9 = -110
       \<and> update_stops p 148.9 = p\<lparr>pos_breakeven := True, pos_sl := 150\<rparr>
       \<and> manage_position_v10 (Some p) 148.9 3600 = (None, Some (CLOSE 150 0 ''Stop loss hit''))
       \<and> manage_position (Some p) 148.9 3600 = (None, Some (CLOSE 150 0 ''Stop loss hit'')))"
  by code_simp

text \<open>
  The same in general: the first time the price reaches the stop of a long position,
  the exit is booked at the entry price with no loss.
\<close>

lemma trail_tier_no_move_long:
  assumes "pos_action p = BUY" "cp \<le> pos_sl p" "0 \<le> atr" "0 \<le> k"
  shows "trail_tier k atr cp p = p"
proof -
  have "0 \<le> atr * k" using assms by simp
  then have "\<not> cp - atr * k > pos_sl p" using assms(2) by linarith
  then show ?thesis using assms(1) by (simp add: trail_tier_def Let_def)
qed

lemma update_stops_at_stop_out:
  assumes "pos_action p = BUY" "\<not> pos_breakeven p" "pos_sl p < pos_entry p"
      and "price \<le> pos_sl p"
      and "pos_atr p = None \<or> (\<exists>a\<ge>0. pos_atr p = Some a)"
  shows "update_stops p price = p\<lparr>pos_breakeven := True, pos_sl := pos_entry p\<rparr>"
proof -
  let ?pips = "position_pips p price" and ?rp = "\<bar>pos_entry p - pos_sl p\<bar> * 100"
  let ?atr = "case pos_atr p of None \<Rightarrow> 0.001 | Some a \<Rightarrow> a"
  let ?p1 = "p\<lparr>pos_breakeven := True, pos_sl := pos_entry p\<rparr>"
  have atr: "0 \<le> ?atr" using assms(5) by (auto split: option.splits)
  have "?pips = (price - pos_entry p) * 100"
    using assms(1) by (simp add: position_pips_def)
  then have "\<bar>?pips\<bar> \<ge> ?rp" using assms(3,4) by simp
  then have b: "move_to_breakeven ?pips ?rp p = ?p1"
    using assms(2) by (simp add: move_to_breakeven_def)
  have le: "price \<le> pos_sl ?p1" using assms(3,4) by simp
  have act: "pos_action ?p1 = BUY" using assms(1) by simp
  have t2: "trail_after 2 2 ?pips ?rp ?atr price ?p1 = ?p1"
    unfolding trail_after_def using trail_tier_no_move_long[OF act le atr, of 2] by simp
  have t3: "trail_after 3 1.5 ?pips ?rp ?atr price ?p1 = ?p1"
    unfolding trail_after_def using trail_tier_no_move_long[OF act le atr, of "1.5"] by simp
  show ?thesis
    unfolding update_stops_def Let_def b t2 t3 ..
qed

lemma first_stop_out_booked_at_entry:
  assumes "pos_action p = BUY" "\<not> pos_breakeven p" "pos_sl p < pos_entry p"
      and "price \<le> pos_sl p" "t - pos_entry_time p \<le> 12 * 3600"
      and "pos_atr p = None \<or> (\<exists>a\<ge>0. pos_atr p = Some a)"
  shows "manage_position_v10 (Some p) price t
         = (None, Some (CLOSE (pos_entry p) 0 ''Stop loss hit''))"
proof -
  have u: "update_stops p price = p\<lparr>pos_breakeven := True, pos_sl := pos_entry p\<rparr>"
    using assms(1,2,3,4,6) by (rule update_stops_at_stop_out)
  have "price \<le> pos_entry p" using assms(3,4) by simp
  then show ?thesis
    using assms(1,5)
    by (simp add: manage_position_v10_def manage_position_body_def Let_def u)
qed
section \<open>Properties of the backtesters\<close>

lemma cli_trailing_update_fields [simp]:
  "ct_action (cli_trailing_update t row) = ct_action t"
  "ct_tp (cli_trailing_update t row) = ct_tp t"
  "ct_entry (cli_trailing_update t row) = ct_entry t"
  by (simp_all add: cli_trailing_update_def Let_def split: option.splits)

lemma cli_trailing_update_long:
  "ct_action t = BUY \<Longrightarrow> ct_sl t \<le> ct_sl (cli_trailing_update t row)"
  by (simp add: cli_trailing_update_def Let_def split: option.splits)

lemma cli_trailing_update_short:
  "ct_action t \<noteq> BUY \<Longrightarrow> ct_sl (cli_trailing_update t row) \<le> ct_sl t"
  by (simp add: cli_trailing_update_def Let_def split: option.splits)

lemma cli_resolve_exit_fields [simp]:
  "ct_action (fst (cli_resolve_exit t row)) = ct_action t"
  "ct_tp (fst (cli_resolve_exit t row)) = ct_tp t"
  "ct_entry (fst (cli_resolve_exit t row)) = ct_entry t"
  by (simp_all add: cli_resolve_exit_def Let_def)

lemma cli_resolve_exit_long:
  "ct_action t = BUY \<Longrightarrow> ct_sl t \<le> ct_sl (fst (cli_resolve_exit t row))"
  by (simp add: cli_resolve_exit_def Let_def)

lemma cli_resolve_exit_short:
  "ct_action t \<noteq> BUY \<Longrightarrow> ct_sl (fst (cli_resolve_exit t row)) \<le> ct_sl t"
  by (simp add: cli_resolve_exit_def Let_def)

text \<open>The stop test comes first: a bar that reaches the stop the bar ends with is a stop exit.\<close>

lemma cli_resolve_exit_stop_long:
  assumes "ct_action t = BUY" "bar_low row \<le> ct_sl (fst (cli_resolve_exit t row))"
  shows "snd (cli_resolve_exit t row) = Some (ct_sl (fst (cli_resolve_exit t row)), ''Stop Loss'')"
  using assms by (simp add: cli_resolve_exit_def Let_def split: if_splits)

lemma cli_resolve_exit_stop_short:
  assumes "ct_action t \<noteq> BUY" "ct_sl (fst (cli_resolve_exit t row)) \<le> bar_high row"
  shows "snd (cli_resolve_exit t row) = Some (ct_sl (fst (cli_resolve_exit t row)), ''Stop Loss'')"
  using assms by (simp add: cli_resolve_exit_def Let_def split: if_splits)

lemma cli_manage_active_trade_long:
  assumes "ct_action t = BUY" "bar_low row \<le> ct_sl t"
  shows "snd (cli_manage_active_trade t row)
           = Some (ct_sl (fst (cli_manage_active_trade t row)), ''Stop Loss'')
         \<and> ct_sl t \<le> ct_sl (fst (cli_manage_active_trade t row))"
proof -
  let ?u = "cli_trailing_update t row"
  have act: "ct_action ?u = BUY" using assms(1) by simp
  have "ct_sl t \<le> ct_sl ?u" using assms(1) by (rule cli_trailing_update_long)
  also have "\<dots> \<le> ct_sl (fst (cli_resolve_exit ?u row))"
    using act by (rule cli_resolve_exit_long)
  finally have le: "ct_sl t \<le> ct_sl (fst (cli_resolve_exit ?u row))" .
  with assms(2) have "bar_low row \<le> ct_sl (fst (cli_resolve_exit ?u row))" by linarith
  with act le show ?thesis
    unfolding cli_manage_active_trade_def by (simp add: cli_resolve_exit_stop_long)
qed

lemma cli_manage_active_trade_short:
  assumes "ct_action t \<noteq> BUY" "ct_sl t \<le> bar_high row"
  shows "snd (cli_manage_active_trade t row)
           = Some (ct_sl (fst (cli_manage_active_trade t row)), ''Stop Loss'')
         \<and> ct_sl (fst (cli_manage_active_trade t row)) \<le> ct_sl t"
proof -
  let ?u = "cli_trailing_update t row"
  have act: "ct_action ?u \<noteq> BUY" using assms(1) by simp
  have "ct_sl (fst (cli_resolve_exit ?u row)) \<le> ct_sl ?u"
    using act by (rule cli_resolve_exit_short)
  also have "\<dots> \<le> ct_sl t" using assms(1) by (rule cli_trailing_update_short)
  finally have le: "ct_sl (fst (cli_resolve_exit ?u row)) \<le> ct_sl t" .
  with assms(2) have "ct_sl (fst (cli_resolve_exit ?u row)) \<le> bar_high row" by linarith
  with act le show ?thesis
    unfolding cli_manage_active_trade_def by (simp add: cli_resolve_exit_stop_short)
qed

text \<open>The same test against the stop as the bar's own update leaves it.\<close>

lemma cli_manage_active_trade_updated_stop:
  assumes "(ct_action t = BUY \<and> bar_low row \<le> ct_sl (fst (cli_manage_active_trade t row)))
           \<or> (ct_action t \<noteq> BUY \<and> ct_sl (fst (cli_manage_active_trade t row)) \<le> bar_high row)"
  shows "snd (cli_manage_active_trade t row)
           = Some (ct_sl (fst (cli_manage_active_trade t row)), ''Stop Loss'')"
  using assms unfolding cli_manage_active_trade_def
  by (auto intro: cli_resolve_exit_stop_long cli_resolve_exit_stop_short)

text \<open>An exit at a non-zero price is booked with its price and reason and ends the trade.\<close>

lemma bt_manage_books_exit:
  assumes "bt_active_trade s = Some t"
      and "snd (cli_manage_active_trade t row) = Some (price, reason)" "price \<noteq> 0"
  shows "bt_active_trade (bt_manage row s) = None
         \<and> map ct_exitReason (bt_trades (bt_manage row s))
             = map ct_exitReason (bt_trades s) @ [Some reason]
         \<and> map ct_exitPrice (bt_trades (bt_manage row s))
             = map ct_exitPrice (bt_trades s) @ [Some price]"
  using assms
  by (cases "cli_manage_active_trade t row") (simp add: bt_manage_def Let_def)

text \<open>
  The exit price of a bar that reaches the stop, for a trade as the replayer builds it
  (no \<open>'signal'\<close> key, so the trailing block does nothing): the stop after the bar's own
  breakeven move.
\<close>

lemma cli_manage_active_trade_price_long:
  assumes "ct_action t = BUY" "ct_trailing t = None" "bar_low row \<le> ct_sl t"
  shows "snd (cli_manage_active_trade t row)
         = Some (if bar_high row > ct_entry t + (ct_entry t - ct_sl t)
                    \<and> ct_entry t + (ct_entry t - ct_sl t) * 0.1 > ct_sl t
                 then ct_entry t + (ct_entry t - ct_sl t) * 0.1 else ct_sl t, ''Stop Loss'')"
  using assms
  by (simp add: cli_manage_active_trade_def cli_trailing_update_def cli_resolve_exit_def Let_def)

lemma cli_manage_active_trade_price_short:
  assumes "ct_action t = SELL" "ct_trailing t = None" "ct_sl t \<le> bar_high row"
  shows "snd (cli_manage_active_trade t row)
         = Some (if bar_low row < ct_entry t - (ct_sl t - ct_entry t)
                    \<and> ct_entry t - (ct_sl t - ct_entry t) * 0.1 < ct_sl t
                 then ct_entry t - (ct_sl t - ct_entry t) * 0.1 else ct_sl t, ''Stop Loss'')"
  using assms
  by (simp add: cli_manage_active_trade_def cli_trailing_update_def cli_resolve_exit_def Let_def)

text \<open>
  C1 fails on the code of backtest\_cli.py. When the range of a bar reaches both the
  stop and the target of the open trade, both backtesters resolve the bar as a
  \<open>Stop Loss\<close> exit and never as a \<open>Take Profit\<close>; backtester.py exits at the stop.
  backtest\_cli.py moves the stop on the bar's high (\<open># > 1R Profit\<close>) before it tests
  the stop against the bar's low, and exits at the moved stop. For a long whose stop is
  below the entry and whose target is more than 1R above it, every such bar is booked as
  a \<open>Stop Loss\<close> at \<open>entry + 0.1 * (entry - stop)\<close>, above the entry; for a short, at
  \<open>entry - 0.1 * (stop - entry)\<close>, below the entry. The exit is booked, and the trade
  ended, unless the price is \<open>0\<close> (\<open>if exit_price:\<close>).
\<close>

theorem tie_bar_books_moved_stop:
  "(ct_action t = BUY \<and> bar_low row \<le> ct_sl t \<and> ct_tp t \<le> bar_high row
    \<longrightarrow> (let t' = fst (cli_manage_active_trade t row)
         in snd (cli_manage_active_trade t row) = Some (ct_sl t', ''Stop Loss'')
            \<and> ct_sl t \<le> ct_sl t')
        \<and> (ct_trailing t = None
            \<longrightarrow> snd (cli_manage_active_trade t row)
                  = Some (if bar_high row > ct_entry t + (ct_entry t - ct_sl t)
                             \<and> ct_entry t + (ct_entry t - ct_sl t) * 0.1 > ct_sl t
                          then ct_entry t + (ct_entry t - ct_sl t) * 0.1 else ct_sl t,
                          ''Stop Loss''))
        \<and> (ct_trailing t = None \<and> ct_sl t < ct_entry t
             \<and> ct_entry t + (ct_entry t - ct_sl t) < ct_tp t
            \<longrightarrow> snd (cli_manage_active_trade t row)
                  = Some (ct_entry t + (ct_entry t - ct_sl t) * 0.1, ''Stop Loss'')
                \<and> ct_entry t < ct_entry t + (ct_entry t - ct_sl t) * 0.1))
   \<and> (ct_action t = SELL \<and> ct_sl t \<le> bar_high row \<and> bar_low row \<le> ct_tp t
    \<longrightarrow> (let t' = fst (cli_manage_active_trade t row)
         in snd (cli_manage_active_trade t row) = Some (ct_sl t', ''Stop Loss'')
            \<and> ct_sl t' \<le> ct_sl t)
        \<and> (ct_trailing t = None
            \<longrightarrow> snd (cli_manage_active_trade t row)
                  = Some (if bar_low row < ct_entry t - (ct_sl t - ct_entry t)
                             \<and> ct_entry t - (ct_sl t - ct_entry t) * 0.1 < ct_sl t
                          then ct_entry t - (ct_sl t - ct_entry t) * 0.1 else ct_sl t,
                          ''Stop Loss''))
        \<and> (ct_trailing t = None \<and> ct_entry t < ct_sl t
             \<and> ct_tp t < ct_entry t - (ct_sl t - ct_entry t)
            \<longrightarrow> snd (cli_manage_active_trade t row)
                  = Some (ct_entry t - (ct_sl t - ct_entry t) * 0.1, ''Stop Loss'')
                \<and> ct_entry t - (ct_sl t - ct_entry t) * 0.1 < ct_entry t))
   \<and> (bt_active_trade s = Some t
       \<and> snd (cli_manage_active_trade t row) = Some (price, ''Stop Loss'') \<and> price \<noteq> 0
       \<longrightarrow> bt_active_trade (bt_manage row s) = None
           \<and> map ct_exitReason (bt_trades (bt_manage row s))
               = map ct_exitReason (bt_trades s) @ [Some ''Stop Loss'']
           \<and> map ct_exitPrice (bt_trades (bt_manage row s))
               = map ct_exitPrice (bt_trades s) @ [Some price])
   \<and> ((vb_type v = BUY \<and> bar_low row \<le> vb_sl v \<and> vb_tp v \<le> bar_high row)
       \<or> (vb_type v = SELL \<and> vb_sl v \<le> bar_high row \<and> bar_low row \<le> vb_tp v)
       \<longrightarrow> vb_manage_active_trade v row = Some (vb_sl v, ''Stop Loss''))"
proof (intro conjI impI)
  assume tie: "ct_action t = BUY \<and> bar_low row \<le> ct_sl t \<and> ct_tp t \<le> bar_high row"
  then have act: "ct_action t = BUY" and low: "bar_low row \<le> ct_sl t"
    and high: "ct_tp t \<le> bar_high row" by simp_all
  from cli_manage_active_trade_long[OF act low]
  show "let t' = fst (cli_manage_active_trade t row)
         in snd (cli_manage_active_trade t row) = Some (ct_sl t', ''Stop Loss'')
            \<and> ct_sl t \<le> ct_sl t'"
    unfolding Let_def .
  {
    assume none: "ct_trailing t = None"
    from cli_manage_active_trade_price_long[OF act none low]
    show "snd (cli_manage_active_trade t row)
          = Some (if bar_high row > ct_entry t + (ct_entry t - ct_sl t)
                     \<and> ct_entry t + (ct_entry t - ct_sl t) * 0.1 > ct_sl t
                  then ct_entry t + (ct_entry t - ct_sl t) * 0.1 else ct_sl t, ''Stop Loss'')" .
  }
  {
    assume h: "ct_trailing t = None \<and> ct_sl t < ct_entry t
               \<and> ct_entry t + (ct_entry t - ct_sl t) < ct_tp t"
    then have none: "ct_trailing t = None" and side: "ct_sl t < ct_entry t"
      and far: "ct_entry t + (ct_entry t - ct_sl t) < ct_tp t" by simp_all
    have moved: "bar_high row > ct_entry t + (ct_entry t - ct_sl t)"
      using far high by linarith
    have above: "ct_entry t < ct_entry t + (ct_entry t - ct_sl t) * 0.1"
      using side by simp
    then have tighter: "ct_entry t + (ct_entry t - ct_sl t) * 0.1 > ct_sl t"
      using side by linarith
    from cli_manage_active_trade_price_long[OF act none low] moved tighter
    show "snd (cli_manage_active_trade t row)
          = Some (ct_entry t + (ct_entry t - ct_sl t) * 0.1, ''Stop Loss'')"
      by simp
    from above show "ct_entry t < ct_entry t + (ct_entry t - ct_sl t) * 0.1" .
  }
next
  assume tie: "ct_action t = SELL \<and> ct_sl t \<le> bar_high row \<and> bar_low row \<le> ct_tp t"
  then have act: "ct_action t = SELL" and high: "ct_sl t \<le> bar_high row"
    and low: "bar_low row \<le> ct_tp t" by simp_all
  have nbuy: "ct_action t \<noteq> BUY" using act by simp
  from cli_manage_active_trade_short[OF nbuy high]
  show "let t' = fst (cli_manage_active_trade t row)
         in snd (cli_manage_active_trade t row) = Some (ct_sl t', ''Stop Loss'')
            \<and> ct_sl t' \<le> ct_sl t"
    unfolding Let_def .
  {
    assume none: "ct_trailing t = None"
    from cli_manage_active_trade_price_short[OF act none high]
    show "snd (cli_manage_active_trade t row)
          = Some (if bar_low row < ct_entry t - (ct_sl t - ct_entry t)
                     \<and> ct_entry t - (ct_sl t - ct_entry t) * 0.1 < ct_sl t
                  then ct_entry t - (ct_sl t - ct_entry t) * 0.1 else ct_sl t, ''Stop Loss'')" .
  }
  {
    assume h: "ct_trailing t = None \<and> ct_entry t < ct_sl t
               \<and> ct_tp t < ct_entry t - (ct_sl t - ct_entry t)"
    then have none: "ct_trailing t = None" and side: "ct_entry t < ct_sl t"
      and far: "ct_tp t < ct_entry t - (ct_sl t - ct_entry t)" by simp_all
    have moved: "bar_low row < ct_entry t - (ct_sl t - ct_entry t)"
      using far low by linarith
    have below: "ct_entry t - (ct_sl t - ct_entry t) * 0.1 < ct_entry t"
      using side by simp
    then have tighter: "ct_entry t - (ct_sl t - ct_entry t) * 0.1 < ct_sl t"
      using side by linarith
    from cli_manage_active_trade_price_short[OF act none high] moved tighter
    show "snd (cli_manage_active_trade t row)
          = Some (ct_entry t - (ct_sl t - ct_entry t) * 0.1, ''Stop Loss'')"
      by simp
    from below show "ct_entry t - (ct_sl t - ct_entry t) * 0.1 < ct_entry t" .
  }
next
  assume "bt_active_trade s = Some t
       \<and> snd (cli_manage_active_trade t row) = Some (price, ''Stop Loss'') \<and> price \<noteq> 0"
  then have "bt_active_trade (bt_manage row s) = None
           \<and> map ct_exitReason (bt_trades (bt_manage row s))
               = map ct_exitReason (bt_trades s) @ [Some ''Stop Loss'']
           \<and> map ct_exitPrice (bt_trades (bt_manage row s))
               = map ct_exitPrice (bt_trades s) @ [Some price]"
    using bt_manage_books_exit[of s t row price "''Stop Loss''"] by blast
  then show "bt_active_trade (bt_manage row s) = None"
    and "map ct_exitReason (bt_trades (bt_manage row s))
               = map ct_exitReason (bt_trades s) @ [Some ''Stop Loss'']"
    and "map ct_exitPrice (bt_trades (bt_manage row s))
               = map ct_exitPrice (bt_trades s) @ [Some price]"
    by simp_all
next
  assume "(vb_type v = BUY \<and> bar_low row \<le> vb_sl v \<and> vb_tp v \<le> bar_high row)
       \<or> (vb_type v = SELL \<and> vb_sl v \<le> bar_high row \<and> bar_low row \<le> vb_tp v)"
  then show "vb_manage_active_trade v row = Some (vb_sl v, ''Stop Loss'')"
    by (auto simp: vb_manage_active_trade_def)
qed

lemma bt_init_inv: "breaker_inv cfg (bt_init cfg)"
  by (simp add: breaker_inv_def bt_init_def)

lemma bt_daily_reset_inv: "breaker_inv cfg s \<Longrightarrow> breaker_inv cfg (bt_daily_reset row s)"
  by (auto simp: breaker_inv_def bt_daily_reset_def)

lemma bt_manage_inv: "breaker_inv cfg s \<Longrightarrow> breaker_inv cfg (bt_manage row s)"
  by (auto simp: breaker_inv_def bt_manage_def Let_def split: option.splits prod.splits)

lemma bt_check_signal_inv:
  "breaker_inv cfg s \<Longrightarrow> breaker_inv cfg (bt_check_signal cfg gen df i s)"
  by (auto simp: breaker_inv_def bt_check_signal_def Let_def)

lemma bt_step_inv: "breaker_inv cfg s \<Longrightarrow> breaker_inv cfg (bt_step cfg gen df i s)"
proof -
  assume inv: "breaker_inv cfg s"
  have "breaker_inv cfg (bt_check_signal cfg gen df i (bt_manage (df ! i) (bt_daily_reset (df ! i) s)))"
    by (intro bt_check_signal_inv bt_manage_inv bt_daily_reset_inv inv)
  then show ?thesis
    using inv by (auto simp: bt_step_def Let_def breaker_inv_def split: option.splits)
qed

lemma bt_loop_inv: "breaker_inv cfg s \<Longrightarrow> breaker_inv cfg (bt_loop cfg gen df js s)"
  unfolding bt_loop_def
  by (induction js arbitrary: s) (simp_all add: bt_step_inv)

lemma run_backtest_upto_inv: "breaker_inv cfg (run_backtest_upto cfg gen df n)"
  unfolding run_backtest_upto_def by (rule bt_loop_inv[OF bt_init_inv])

lemma bt_step_tripped:
  assumes "tripped cfg d s" "bar_date (df ! i) = d"
  shows "tripped cfg d (bt_step cfg gen df i s)
         \<and> bt_trades (bt_step cfg gen df i s) = bt_trades s
         \<and> bt_daily_pnl (bt_step cfg gen df i s) = bt_daily_pnl s
         \<and> bt_equity (bt_step cfg gen df i s) = bt_equity s"
proof -
  have r: "bt_daily_reset (df ! i) s = s"
    using assms by (simp add: bt_daily_reset_def tripped_def)
  have m: "bt_manage (df ! i) s = s"
    using assms by (simp add: bt_manage_def tripped_def)
  have c: "bt_check_signal cfg gen df i s = s"
    using assms by (simp add: bt_check_signal_def tripped_def)
  show ?thesis
    using assms(1) by (simp add: bt_step_def Let_def r m c tripped_def split: option.splits)
qed

lemma bt_loop_tripped:
  assumes "tripped cfg d s" "\<forall>j \<in> set js. bar_date (df ! j) = d"
  shows "tripped cfg d (bt_loop cfg gen df js s)
         \<and> bt_trades (bt_loop cfg gen df js s) = bt_trades s
         \<and> bt_daily_pnl (bt_loop cfg gen df js s) = bt_daily_pnl s
         \<and> bt_equity (bt_loop cfg gen df js s) = bt_equity s"
  using assms unfolding bt_loop_def
proof (induction js arbitrary: s)
  case Nil
  then show ?case by simp
next
  case (Cons j js)
  have st: "tripped cfg d (bt_step cfg gen df j s)
         \<and> bt_trades (bt_step cfg gen df j s) = bt_trades s
         \<and> bt_daily_pnl (bt_step cfg gen df j s) = bt_daily_pnl s
         \<and> bt_equity (bt_step cfg gen df j s) = bt_equity s"
    using Cons.prems by (intro bt_step_tripped) simp_all
  then have "tripped cfg d (bt_step cfg gen df j s)" by simp
  from Cons.IH[OF this] Cons.prems(2) st show ?case by simp
qed

lemma bt_step_rollover:
  assumes "tripped cfg d s" "bar_date (df ! k) \<noteq> d"
      and "case cfg_target_start cfg of None \<Rightarrow> True | Some start \<Rightarrow> start \<le> bar_time (df ! k)"
  shows "bt_step cfg gen df k s
         = (let s0 = bt_check_signal cfg gen df k
                       (s\<lparr>bt_daily_pnl := 0, bt_last_date := Some (bar_date (df ! k))\<rparr>)
            in s0\<lparr>bt_equity_curve := bt_equity_curve s0 @ [(bar_time (df ! k), bt_equity s0)]\<rparr>)"
proof -
  have r: "bt_daily_reset (df ! k) s = s\<lparr>bt_daily_pnl := 0, bt_last_date := Some (bar_date (df ! k))\<rparr>"
    using assms by (simp add: bt_daily_reset_def tripped_def)
  have m: "bt_manage (df ! k) (s\<lparr>bt_daily_pnl := 0, bt_last_date := Some (bar_date (df ! k))\<rparr>)
           = s\<lparr>bt_daily_pnl := 0, bt_last_date := Some (bar_date (df ! k))\<rparr>"
    using assms by (simp add: bt_manage_def tripped_def)
  show ?thesis
    using assms(3) by (simp add: bt_step_def Let_def r m split: option.splits)
qed

lemma run_backtest_upto_split:
  assumes "500 \<le> n" "n \<le> m"
  shows "run_backtest_upto cfg gen df m = bt_loop cfg gen df [n ..< m] (run_backtest_upto cfg gen df n)"
proof -
  have "[500 ..< m] = [500 ..< n] @ [n ..< m]"
    using assms by (metis le_Suc_ex upt_add_eq_append)
  then show ?thesis
    by (simp add: run_backtest_upto_def bt_loop_def)
qed

text \<open>
  C5. Let the daily realized PnL be at or below \<open>-max_daily_loss\<close> when the loop has
  passed the rows before \<open>n\<close>, the last of them on day \<open>d\<close>, and let the rows from
  \<open>n\<close> up to \<open>m\<close> all be on day \<open>d\<close>. Then after those rows no trade is open, no
  trade has been added to the ledger, and the daily PnL and the equity are what they
  were, whatever the strategy emits. On the first row of another day (not skipped by
  the start-date filter) the daily PnL is reset to \<open>0\<close> and the signal check runs on
  the reset state.
\<close>

theorem daily_loss_breaker:
  assumes "bt_daily_pnl (run_backtest_upto cfg gen df n) \<le> - cfg_max_daily_loss cfg"
      and "bt_last_date (run_backtest_upto cfg gen df n) = Some d"
      and "n \<le> m" "\<forall>j \<in> {n ..< m}. bar_date (df ! j) = d"
  shows "bt_active_trade (run_backtest_upto cfg gen df m) = None
         \<and> bt_trades (run_backtest_upto cfg gen df m) = bt_trades (run_backtest_upto cfg gen df n)
         \<and> bt_daily_pnl (run_backtest_upto cfg gen df m)
             = bt_daily_pnl (run_backtest_upto cfg gen df n)
         \<and> bt_equity (run_backtest_upto cfg gen df m) = bt_equity (run_backtest_upto cfg gen df n)
         \<and> (bar_date (df ! m) \<noteq> d
              \<and> (case cfg_target_start cfg of None \<Rightarrow> True | Some start \<Rightarrow> start \<le> bar_time (df ! m))
            \<longrightarrow> run_backtest_upto cfg gen df (Suc m)
                  = (let s0 = bt_check_signal cfg gen df m
                                ((run_backtest_upto cfg gen df m)
                                   \<lparr>bt_daily_pnl := 0, bt_last_date := Some (bar_date (df ! m))\<rparr>)
                     in s0\<lparr>bt_equity_curve :=
                              bt_equity_curve s0 @ [(bar_time (df ! m), bt_equity s0)]\<rparr>))"
proof -
  let ?s = "run_backtest_upto cfg gen df n"
  have n500: "500 \<le> n"
  proof (rule ccontr)
    assume "\<not> 500 \<le> n"
    then have "?s = bt_init cfg" by (simp add: run_backtest_upto_def bt_loop_def)
    with assms(2) show False by (simp add: bt_init_def)
  qed
  have "breaker_inv cfg ?s" by (rule run_backtest_upto_inv)
  with assms(1) have "bt_active_trade ?s = None" by (auto simp: breaker_inv_def)
  with assms(1,2) have tr: "tripped cfg d ?s" by (simp add: tripped_def)
  have split: "run_backtest_upto cfg gen df m = bt_loop cfg gen df [n ..< m] ?s"
    using n500 assms(3) by (rule run_backtest_upto_split)
  have days: "\<forall>j \<in> set [n ..< m]. bar_date (df ! j) = d" using assms(4) by simp
  from bt_loop_tripped[OF tr days, of gen]
  have after: "tripped cfg d (run_backtest_upto cfg gen df m)
         \<and> bt_trades (run_backtest_upto cfg gen df m) = bt_trades ?s
         \<and> bt_daily_pnl (run_backtest_upto cfg gen df m) = bt_daily_pnl ?s
         \<and> bt_equity (run_backtest_upto cfg gen df m) = bt_equity ?s"
    by (simp add: split)
  have next_row: "run_backtest_upto cfg gen df (Suc m)
                  = bt_step cfg gen df m (run_backtest_upto cfg gen df m)"
    using n500 assms(3) by (simp add: run_backtest_upto_def bt_loop_def)
  have roll: "bar_date (df ! m) \<noteq> d
              \<and> (case cfg_target_start cfg of None \<Rightarrow> True | Some start \<Rightarrow> start \<le> bar_time (df ! m))
            \<longrightarrow> run_backtest_upto cfg gen df (Suc m)
                  = (let s0 = bt_check_signal cfg gen df m
                                ((run_backtest_upto cfg gen df m)
                                   \<lparr>bt_daily_pnl := 0, bt_last_date := Some (bar_date (df ! m))\<rparr>)
                     in s0\<lparr>bt_equity_curve :=
                              bt_equity_curve s0 @ [(bar_time (df ! m), bt_equity s0)]\<rparr>)"
    using after bt_step_rollover[of cfg d "run_backtest_upto cfg gen df m" df m gen]
    by (simp add: next_row)
  from after roll show ?thesis by (simp add: tripped_def)
qed

lemma example_df_rows:
  "example_df ! 500 = example_row 1704326400000 149.8 150.2"
  "example_df ! 501 = example_row 1704327300000 148.9 150.2"
  "example_df ! 502 = example_row 1704328200000 149.8 150.2"
  "example_df ! 503 = example_row 1704412800000 149.8 150.2"
  by (simp_all add: example_df_def nth_append)

lemma example_df_length: "length example_df = 504"
  by (simp add: example_df_def)

lemma last_take_Suc: "i < length xs \<Longrightarrow> last (take (Suc i) xs) = xs ! i"
  by (simp add: take_Suc_conv_app_nth)

lemma example_always_buy_at:
  "example_always_buy (take 501 example_df)
   = \<lparr>sig_action = BUY, sig_entry = 150, sig_sl = 149, sig_tp = 153\<rparr>"
  "example_always_buy (take 502 example_df)
   = \<lparr>sig_action = BUY, sig_entry = 150, sig_sl = 149, sig_tp = 153\<rparr>"
  "example_always_buy (take 503 example_df)
   = \<lparr>sig_action = BUY, sig_entry = 150, sig_sl = 149, sig_tp = 153\<rparr>"
  "example_always_buy (take 504 example_df)
   = \<lparr>sig_action = BUY, sig_entry = 150, sig_sl = 149, sig_tp = 153\<rparr>"
  using last_take_Suc[of 500 example_df] last_take_Suc[of 501 example_df]
        last_take_Suc[of 502 example_df] last_take_Suc[of 503 example_df]
  by (simp_all add: example_always_buy_def example_df_length example_df_rows example_row_def)

text \<open>The definitions a concrete step of the replay unfolds.\<close>

lemmas bt_eval_defs = bt_step_def bt_daily_reset_def bt_manage_def bt_check_signal_def
  cli_manage_active_trade_def cli_trailing_update_def cli_resolve_exit_def
  cli_calc_units_usdjpy_def py_int_def is_trading_session_active_def bar_date_def
  example_row_def example_config_def example_df_rows example_always_buy_at Let_def

lemma step_500:
  "bt_step example_config example_always_buy example_df 500 (bt_init example_config)
   = example_state_501"
  by (simp add: bt_eval_defs bt_init_def example_state_501_def example_cli_trade_def)

lemma step_501:
  "bt_step example_config example_always_buy example_df 501 example_state_501
   = example_state_502"
  by (simp add: bt_eval_defs example_state_501_def example_state_502_def example_cli_trade_def)

lemma step_502:
  "bt_step example_config example_always_buy example_df 502 example_state_502
   = example_state_503"
  by (simp add: bt_eval_defs example_state_502_def example_state_503_def)

lemma step_503:
  "bt_step example_config example_always_buy example_df 503 example_state_503
   = example_state_504"
  by (simp add: bt_eval_defs example_state_502_def example_state_503_def example_state_504_def
        example_cli_trade_def)

lemma example_ranges:
  "[500 ..< 502] = [500, 501]" "[500 ..< 503] = [500, 501, 502]"
  "[500 ..< 504] = [500, 501, 502, 503]"
  by code_simp+

lemma example_replay:
  "run_backtest_upto example_config example_always_buy example_df 502 = example_state_502"
  "run_backtest_upto example_config example_always_buy example_df 503 = example_state_503"
  "run_backtest_upto example_config example_always_buy example_df 504 = example_state_504"
  by (simp_all add: run_backtest_upto_def bt_loop_def example_ranges step_500 step_501 step_502
        step_503)

text \<open>
  The example replay: the trade opened on row 500 is stopped out on row 501 for
  \<open>-671.14\<close>; row 502, same day, opens nothing although the strategy says BUY in an
  active session; row 503, next day, opens trade number 2.
\<close>

theorem daily_loss_breaker_witness:
  "bt_daily_pnl (run_backtest_upto example_config example_always_buy example_df 502)
     \<le> - cfg_max_daily_loss example_config
   \<and> bt_daily_pnl (run_backtest_upto example_config example_always_buy example_df 502)
       = - 100000 / 149
   \<and> bt_last_date (run_backtest_upto example_config example_always_buy example_df 502)
       = Some 19726
   \<and> bar_date (example_df ! 502) = 19726
   \<and> sig_action (example_always_buy (take 503 example_df)) = BUY
   \<and> is_trading_session_active (bar_time (example_df ! 502))
   \<and> bt_active_trade (run_backtest_upto example_config example_always_buy example_df 503) = None
   \<and> bt_trades (run_backtest_upto example_config example_always_buy example_df 503)
       = bt_trades (run_backtest_upto example_config example_always_buy example_df 502)
   \<and> bar_date (example_df ! 503) = 19727
   \<and> map_option ct_id
        (bt_active_trade (run_backtest_upto example_config example_always_buy example_df 504))
       = Some 2"
proof -
  have h1: "bt_daily_pnl (run_backtest_upto example_config example_always_buy example_df 502)
              \<le> - cfg_max_daily_loss example_config"
    unfolding example_replay by (simp add: example_state_502_def example_config_def)
  have h2: "bt_last_date (run_backtest_upto example_config example_always_buy example_df 502)
              = Some 19726"
    unfolding example_replay by (simp add: example_state_502_def)
  have d502: "bar_date (example_df ! 502) = 19726"
    by (simp add: example_df_rows example_row_def bar_date_def)
  have "{502 ..< 503} = {502::nat}" by auto
  with d502 have h4: "\<forall>j \<in> {502 ..< 503}. bar_date (example_df ! j) = 19726" by simp
  have v1: "bt_daily_pnl (run_backtest_upto example_config example_always_buy example_df 502)
             = - 100000 / 149"
    unfolding example_replay by (simp add: example_state_502_def)
  have v2: "sig_action (example_always_buy (take 503 example_df)) = BUY
           \<and> is_trading_session_active (bar_time (example_df ! 502))
           \<and> bar_date (example_df ! 503) = 19727"
    by (simp add: example_always_buy_at example_df_rows
          example_row_def bar_date_def is_trading_session_active_def)
  have v3: "map_option ct_id
        (bt_active_trade (run_backtest_upto example_config example_always_buy example_df 504))
       = Some 2"
    unfolding example_replay by (simp add: example_state_504_def)
  from daily_loss_breaker[OF h1 h2 _ h4] h1 h2 d502 v1 v2 v3
  show ?thesis by simp
qed

text \<open>
  The bar from 148.90 to 153.10 against the long of 100 units at 150.00 (stop 149.00,
  target 153.00): backtester.py exits at 149.00 and books a loss of 100; backtest\_cli.py
  exits at 150.10 under the reason \<open>Stop Loss\<close> and books a profit of
  \<open>100000 / 1501 = 66.62\<close>.
\<close>

theorem tie_bar_books_moved_stop_witness:
  "ct_action example_cli_trade = BUY
   \<and> bar_low example_tie_bar \<le> ct_sl example_cli_trade
   \<and> ct_tp example_cli_trade \<le> bar_high example_tie_bar
   \<and> ct_trailing example_cli_trade = None
   \<and> ct_sl example_cli_trade = 149
   \<and> snd (cli_manage_active_trade example_cli_trade example_tie_bar) = Some (150.1, ''Stop Loss'')
   \<and> snd (cli_manage_active_trade example_cli_trade example_tie_bar)
       \<noteq> Some (ct_sl example_cli_trade, ''Stop Loss'')
   \<and> bt_active_trade (bt_manage example_tie_bar example_state_501) = None
   \<and> map ct_exitReason (bt_trades (bt_manage example_tie_bar example_state_501))
       = [Some ''Stop Loss'']
   \<and> map ct_exitPrice (bt_trades (bt_manage example_tie_bar example_state_501)) = [Some 150.1]
   \<and> bt_equity (bt_manage example_tie_bar example_state_501) = 10000 + 100000 / 1501
   \<and> vb_manage_active_trade example_vb_trade example_tie_bar = Some (149, ''Stop Loss'')
   \<and> vb_close_trade 10000 example_vb_trade 149 = (- 100, 9900)"
proof -
  have h: "ct_action example_cli_trade = BUY
           \<and> bar_low example_tie_bar \<le> ct_sl example_cli_trade
           \<and> ct_tp example_cli_trade \<le> bar_high example_tie_bar
           \<and> ct_trailing example_cli_trade = None
           \<and> ct_sl example_cli_trade < ct_entry example_cli_trade
           \<and> ct_entry example_cli_trade + (ct_entry example_cli_trade - ct_sl example_cli_trade)
               < ct_tp example_cli_trade
           \<and> vb_type example_vb_trade = BUY
           \<and> bar_low example_tie_bar \<le> vb_sl example_vb_trade
           \<and> vb_tp example_vb_trade \<le> bar_high example_tie_bar
           \<and> bt_active_trade example_state_501 = Some example_cli_trade"
    by code_simp
  have v: "ct_sl example_cli_trade = 149
           \<and> ct_entry example_cli_trade + (ct_entry example_cli_trade - ct_sl example_cli_trade) * 0.1
               = 150.1
           \<and> vb_sl example_vb_trade = 149
           \<and> bt_trades example_state_501 = []
           \<and> bt_equity (bt_manage example_tie_bar example_state_501) = 10000 + 100000 / 1501
           \<and> vb_close_trade 10000 example_vb_trade 149 = (- 100, 9900)"
    by code_simp
  note T = tie_bar_books_moved_stop
         [of example_cli_trade example_tie_bar example_state_501 "150.1" example_vb_trade]
  from v have price: "ct_entry example_cli_trade
                        + (ct_entry example_cli_trade - ct_sl example_cli_trade) * 0.1 = 150.1"
    and sl: "ct_sl example_cli_trade = 149" and vsl: "vb_sl example_vb_trade = 149"
    and nil: "bt_trades example_state_501 = []"
    and eq: "bt_equity (bt_manage example_tie_bar example_state_501) = 10000 + 100000 / 1501"
    and vb: "vb_close_trade 10000 example_vb_trade 149 = (- 100, 9900)"
    by blast+
  from T h have "snd (cli_manage_active_trade example_cli_trade example_tie_bar)
                 = Some (ct_entry example_cli_trade
                          + (ct_entry example_cli_trade - ct_sl example_cli_trade) * 0.1,
                         ''Stop Loss'')"
    by blast
  then have p1: "snd (cli_manage_active_trade example_cli_trade example_tie_bar)
                 = Some (150.1, ''Stop Loss'')"
    unfolding price .
  have ne: "(150.1::real) \<noteq> 0" by simp
  from T h p1 ne
  have p2: "bt_active_trade (bt_manage example_tie_bar example_state_501) = None
           \<and> map ct_exitReason (bt_trades (bt_manage example_tie_bar example_state_501))
               = map ct_exitReason (bt_trades example_state_501) @ [Some ''Stop Loss'']
           \<and> map ct_exitPrice (bt_trades (bt_manage example_tie_bar example_state_501))
               = map ct_exitPrice (bt_trades example_state_501) @ [Some 150.1]"
    by blast
  from T h have "vb_manage_active_trade example_vb_trade example_tie_bar
                 = Some (vb_sl example_vb_trade, ''Stop Loss'')"
    by blast
  then have p3: "vb_manage_active_trade example_vb_trade example_tie_bar
                 = Some (149, ''Stop Loss'')"
    unfolding vsl .
  have p4: "snd (cli_manage_active_trade example_cli_trade example_tie_bar)
              \<noteq> Some (ct_sl example_cli_trade, ''Stop Loss'')"
    unfolding p1 sl by simp
  from h p1 p2 p3 p4 sl eq vb show ?thesis
    unfolding nil by simp
qed
section \<open>Properties of the signal engines\<close>

lemma calculate_position_size_backup_total:
  "\<exists>v. calculate_position_size_backup risk_amount entry sl = Inr v"
  by (simp add: calculate_position_size_backup_def py_div_def Let_def)

lemma calculate_position_size_optimized_total:
  "\<exists>v. calculate_position_size_optimized risk_amount entry sl = Inr v"
  by (simp add: calculate_position_size_optimized_def py_div_def Let_def)

lemma calculate_position_size_total:
  "\<exists>v. calculate_position_size risk bal entry sl strength = Inr v"
proof (cases "\<bar>entry - sl\<bar> * 100 = 0")
  case True
  then have "calculate_position_size risk bal entry sl strength = Inr 0.01"
    by (simp add: calculate_position_size_def Let_def)
  then show ?thesis by (rule exI)
next
  case False
  then show ?thesis
    by (simp add: calculate_position_size_def py_div_def Let_def)
qed

lemma calculate_position_size_zero_distance:
  "calculate_position_size_optimized risk_amount entry entry = Inr 0"
  "calculate_position_size_backup risk_amount entry entry = Inr 0"
  "calculate_position_size risk bal entry entry strength = Inr 0.01"
  "cli_calc_units_usdjpy bal risk entry entry = 0"
  by (simp_all add: calculate_position_size_optimized_def calculate_position_size_backup_def
        calculate_position_size_def cli_calc_units_usdjpy_def Let_def)

lemma optimized_entry_zero_distance:
  assumes "bc_sl_atr_mult cfg * of_atr14 f = 0"
  shows "optimized_entry cfg f side reason = Inr (Hold ''Position size too small'')"
  by (simp only: optimized_entry_def Let_def assms)
     (simp add: calculate_position_size_zero_distance)

lemma backup_entry_zero_distance:
  assumes "bc_sl_atr_mult cfg * bf_atr14 f = 0"
  shows "fst (backup_entry cfg f side reason) = Inr (Hold ''Position size too small'')"
  by (simp only: backup_entry_def Let_def assms)
     (simp add: calculate_position_size_zero_distance)

lemma generate_signal_optimized_zero_distance:
  assumes "bc_sl_atr_mult cfg * of_atr14 f = 0"
  shows "\<exists>reason. generate_signal_optimized cfg f mem = (Inr (Hold reason), mem)"
  using assms
  by (simp add: generate_signal_optimized_def Let_def optimized_entry_zero_distance)

lemma generate_signal_backup_zero_distance:
  assumes "bc_sl_atr_mult cfg * bf_atr14 f = 0"
  shows "\<exists>reason. fst (generate_signal_backup cfg f mem) = Inr (Hold reason)"
  using assms
  by (simp add: generate_signal_backup_def Let_def backup_entry_zero_distance)

text \<open>
  In strategy.py every entry condition contains \<open>good_volatility\<close>, so a candidate
  exists only when the ATR is above 0.8 times its 20-row mean; the stop of a candidate is
  3 or 2.5 ATR from the entry. With a mean that is not negative (it is a mean of average
  true ranges) no candidate has its stop on the entry, and the stop is on the loss side.
\<close>

lemma entry_conditions_volatility:
  "high_conf_bullish current \<Longrightarrow> good_volatility current"
  "pullback_bullish current \<Longrightarrow> good_volatility current"
  "med_conf_bullish current \<Longrightarrow> good_volatility current"
  "high_conf_bearish current \<Longrightarrow> good_volatility current"
  "pullback_bearish current \<Longrightarrow> good_volatility current"
  "med_conf_bearish current \<Longrightarrow> good_volatility current"
  by (simp_all add: high_conf_bullish_def pullback_bullish_def med_conf_bullish_def
        high_conf_bearish_def pullback_bearish_def med_conf_bearish_def)

lemma entry_candidate_fields:
  "cand_entry (entry_candidate current tp_rr side k strength typ reason) = ind_close current"
  "cand_action (entry_candidate current tp_rr side k strength typ reason) = side"
  "cand_sl (entry_candidate current tp_rr side k strength typ reason)
   = (if side = BUY then ind_close current - ind_atr current * k
      else ind_close current + ind_atr current * k)"
  by (simp_all add: entry_candidate_def)

lemma bullish_candidates_volatility:
  assumes "c \<in> set (bullish_candidates stop_mult tp_rr current)"
  shows "good_volatility current \<and> cand_entry c = ind_close current \<and> cand_action c = BUY
         \<and> (cand_sl c = ind_close current - ind_atr current * stop_mult
            \<or> cand_sl c = ind_close current - ind_atr current * 2.5)"
  using assms
  by (auto simp: bullish_candidates_def entry_candidate_fields
        intro: entry_conditions_volatility split: if_splits)

lemma bearish_candidates_volatility:
  assumes "c \<in> set (bearish_candidates stop_mult tp_rr current)"
  shows "good_volatility current \<and> cand_entry c = ind_close current \<and> cand_action c = SELL
         \<and> (cand_sl c = ind_close current + ind_atr current * stop_mult
            \<or> cand_sl c = ind_close current + ind_atr current * 2.5)"
  using assms
  by (auto simp: bearish_candidates_def entry_candidate_fields
        intro: entry_conditions_volatility split: if_splits)

lemma build_candidates_stop_distance:
  assumes "c \<in> set (build_candidates 3.0 4.0 f)" "0 \<le> ind_atr_ma (vf_current f)"
  shows "if cand_action c = BUY then cand_sl c < cand_entry c else cand_entry c < cand_sl c"
proof -
  let ?cur = "vf_current f"
  from assms(1) consider
      (bull) "c \<in> set (bullish_candidates 3.0 4.0 ?cur)"
    | (bear) "c \<in> set (bearish_candidates 3.0 4.0 ?cur)"
    by (auto simp: build_candidates_def)
  then show ?thesis
  proof cases
    case bull
    from bullish_candidates_volatility[OF bull] assms(2)
    have atr: "0 < ind_atr ?cur" and f: "cand_entry c = ind_close ?cur" "cand_action c = BUY"
      and sl: "cand_sl c = ind_close ?cur - ind_atr ?cur * 3.0
               \<or> cand_sl c = ind_close ?cur - ind_atr ?cur * 2.5"
      by (auto simp: good_volatility_def)
    from atr have "0 < ind_atr ?cur * 3.0" "0 < ind_atr ?cur * 2.5" by simp_all
    with sl f show ?thesis by auto
  next
    case bear
    from bearish_candidates_volatility[OF bear] assms(2)
    have atr: "0 < ind_atr ?cur" and f: "cand_entry c = ind_close ?cur" "cand_action c = SELL"
      and sl: "cand_sl c = ind_close ?cur + ind_atr ?cur * 3.0
               \<or> cand_sl c = ind_close ?cur + ind_atr ?cur * 2.5"
      by (auto simp: good_volatility_def)
    from atr have "0 < ind_atr ?cur * 3.0" "0 < ind_atr ?cur * 2.5" by simp_all
    with sl f show ?thesis by auto
  qed
qed

lemma generate_signal_stop_distance:
  assumes "fst (generate_signal bal f mem) = Inr (Trade a e sl tp z r)"
      and "0 \<le> ind_atr_ma (vf_current f)"
  shows "if a = BUY then sl < e else e < sl"
proof (cases "sort_key (\<lambda>c. - cand_strength c) (build_candidates 3.0 4.0 f)")
  case Nil
  with assms(1) show ?thesis by (simp add: generate_signal_def split: if_splits)
next
  case (Cons c rest)
  then have "c \<in> set (sort_key (\<lambda>c. - cand_strength c) (build_candidates 3.0 4.0 f))" by simp
  then have "c \<in> set (build_candidates 3.0 4.0 f)" by simp
  from build_candidates_stop_distance[OF this assms(2)]
  have d: "if cand_action c = BUY then cand_sl c < cand_entry c else cand_entry c < cand_sl c" .
  from assms(1) Cons have "a = cand_action c \<and> e = cand_entry c \<and> sl = cand_sl c"
    by (simp add: generate_signal_def split: if_splits sum.splits)
  with d show ?thesis by simp
qed

text \<open>Frame property of the cooldown memory in strategy.py and in the optimized variant.\<close>

lemma generate_signal_memory:
  "snd (generate_signal bal f mem)
   = (case fst (generate_signal bal f mem) of
        Inr (Trade a e s t z r) \<Rightarrow>
          \<lparr>last_signal_idx = int (vf_len f) - 1, last_signal_time = Some (real_of_int (vf_time f))\<rparr>
      | _ \<Rightarrow> mem)"
  by (simp add: generate_signal_def split: list.splits sum.splits)

lemma generate_signal_optimized_memory:
  "snd (generate_signal_optimized cfg f mem) = mem"
  by (simp add: generate_signal_optimized_def Let_def)

text \<open>
  C4 fails on the code of strategy\_backup.py. Its entry branches assign
  \<open>last_signal_idx\<close> and \<open>last_signal_time\<close> before the position size is tested, so a
  candidate rejected with \<open>Position size too small\<close> returns \<open>HOLD\<close> and still starts
  the cooldown. With a risk of 0.01 percent and a stop 1.26 away the size is 0.009 lots:
  the call returns \<open>HOLD\<close> and the memory goes from \<open>(-1, None)\<close> to the current bar
  and time. strategy.py tests the size first and assigns afterwards
  (\<open>generate_signal_memory\<close> above).
\<close>

theorem cooldown_memory_updated_on_hold:
  "generate_signal_backup example_backup_config example_backup_frame init_signal_memory
   = (Inr (Hold ''Position size too small''),
      \<lparr>last_signal_idx = 999, last_signal_time = Some 1704358800\<rparr>)
   \<and> snd (generate_signal_backup example_backup_config example_backup_frame init_signal_memory)
       \<noteq> init_signal_memory"
  by code_simp

text \<open>
  C8 (as amended). No variant of \<open>calculate_position_size\<close> raises, whatever its
  arguments. With the entry equal to the stop, the variants of
  strategy\_backup\_optimized.py and strategy\_backup.py return \<open>0\<close> (as does the unit
  calculation of the replayer), and their signal engines return \<open>HOLD\<close> whenever the
  stop distance \<open>sl_atr_mult * atr14\<close> is \<open>0\<close>; the optimized engine leaves its
  cooldown memory as it was. The variant of strategy\_v10.py and strategy.py returns the
  minimum lot \<open>0.01\<close> instead.
\<close>

theorem zero_stop_distance_size:
  "calculate_position_size_optimized risk_amount entry entry = Inr 0
   \<and> calculate_position_size_backup risk_amount entry entry = Inr 0
   \<and> cli_calc_units_usdjpy bal risk entry entry = 0
   \<and> calculate_position_size risk bal entry entry strength = Inr 0.01
   \<and> (\<exists>v. calculate_position_size_optimized risk_amount entry sl = Inr v)
   \<and> (\<exists>v. calculate_position_size_backup risk_amount entry sl = Inr v)
   \<and> (\<exists>v. calculate_position_size risk bal entry sl strength = Inr v)
   \<and> (bc_sl_atr_mult cfg * of_atr14 f = 0
        \<longrightarrow> (\<exists>reason. generate_signal_optimized cfg f mem = (Inr (Hold reason), mem)))
   \<and> (bc_sl_atr_mult cfg * bf_atr14 g = 0
        \<longrightarrow> (\<exists>reason. fst (generate_signal_backup cfg g mem) = Inr (Hold reason)))"
  by (intro conjI impI calculate_position_size_zero_distance
        calculate_position_size_optimized_total calculate_position_size_backup_total
        calculate_position_size_total generate_signal_optimized_zero_distance
        generate_signal_backup_zero_distance)

text \<open>
  The optimized engine on a market that has been flat for 14 bars (ATR 0, so the stop
  would be on the entry) holds for low volatility. With \<open>atr_multiplier_sl = 0\<close> in the
  configuration and every long entry condition true, the optimized engine and the engine
  of strategy\_backup.py hold for the size.
\<close>

theorem zero_stop_distance_size_witness:
  "bc_sl_atr_mult example_backup_config * of_atr14 example_flat_optimized_frame = 0
   \<and> generate_signal_optimized example_backup_config example_flat_optimized_frame
        init_signal_memory = (Inr (Hold ''Low volatility''), init_signal_memory)
   \<and> bc_sl_atr_mult example_zero_stop_config * of_atr14 example_optimized_frame = 0
   \<and> generate_signal_optimized example_zero_stop_config example_optimized_frame
        init_signal_memory = (Inr (Hold ''Position size too small''), init_signal_memory)
   \<and> bc_sl_atr_mult example_zero_stop_config * bf_atr14 example_backup_frame = 0
   \<and> fst (generate_signal_backup example_zero_stop_config example_backup_frame
            init_signal_memory) = Inr (Hold ''Position size too small'')
   \<and> (\<exists>reason. generate_signal_optimized example_backup_config example_flat_optimized_frame
                  init_signal_memory = (Inr (Hold reason), init_signal_memory))
   \<and> (\<exists>reason. generate_signal_optimized example_zero_stop_config example_optimized_frame
                  init_signal_memory = (Inr (Hold reason), init_signal_memory))
   \<and> (\<exists>reason. fst (generate_signal_backup example_zero_stop_config example_backup_frame
                       init_signal_memory) = Inr (Hold reason))"
proof -
  have h: "bc_sl_atr_mult example_backup_config * of_atr14 example_flat_optimized_frame = 0
           \<and> bc_sl_atr_mult example_zero_stop_config * of_atr14 example_optimized_frame = 0
           \<and> bc_sl_atr_mult example_zero_stop_config * bf_atr14 example_backup_frame = 0"
    by code_simp
  have v1: "generate_signal_optimized example_backup_config example_flat_optimized_frame
              init_signal_memory = (Inr (Hold ''Low volatility''), init_signal_memory)"
    by code_simp
  have v2: "generate_signal_optimized example_zero_stop_config example_optimized_frame
              init_signal_memory = (Inr (Hold ''Position size too small''), init_signal_memory)"
    by code_simp
  have v3: "fst (generate_signal_backup example_zero_stop_config example_backup_frame
                  init_signal_memory) = Inr (Hold ''Position size too small'')"
    by code_simp
  from zero_stop_distance_size
         [where cfg = example_backup_config and f = example_flat_optimized_frame
            and mem = init_signal_memory and g = example_backup_frame]
       zero_stop_distance_size
         [where cfg = example_zero_stop_config and f = example_optimized_frame
            and mem = init_signal_memory and g = example_backup_frame]
       h v1 v2 v3
  show ?thesis by blast
qed

text \<open>
  C8 as stated fails for strategy\_v10.py and strategy.py: with the entry equal to the
  stop \<open>calculate_position_size\<close> returns \<open>0.01\<close>, not \<open>0\<close>.
\<close>

theorem zero_stop_distance_size_counterexample:
  "calculate_position_size 0.01 10000 150 150 1 = Inr 0.01
   \<and> calculate_position_size 0.01 10000 150 150 1 \<noteq> Inr 0"
  by code_simp
section \<open>Properties of the indicators\<close>

lemma sum_list_map_nonneg: "(\<And>j. (0::real) \<le> col j) \<Longrightarrow> 0 \<le> sum_list (map col js)"
  by (induction js) auto

lemma gain_at_nonneg: "0 \<le> gain_at df i"
  by (simp add: gain_at_def Let_def)

lemma loss_at_nonneg: "0 \<le> loss_at df i"
  by (simp add: loss_at_def Let_def)

lemma plus_dm_at_nonneg: "0 \<le> plus_dm_at df i"
  by (simp add: plus_dm_at_def Let_def)

lemma minus_dm_at_nonneg: "0 \<le> minus_dm_at df i"
  by (simp add: minus_dm_at_def Let_def)

lemma true_range_nonneg:
  "bar_low (df ! 0) \<le> bar_high (df ! 0) \<Longrightarrow> 0 \<le> true_range df i"
  by (auto simp: true_range_def Let_def max_def)

lemma rolling_window_full:
  "0 < w \<Longrightarrow> w \<le> i + 1 \<Longrightarrow> i < n \<Longrightarrow>
   rolling_window n w col i = Some (map col [i + 1 - w ..< i + 1])"
  by (simp add: rolling_window_def)

lemma rolling_mean_nonneg:
  assumes "rolling_mean n w col i = Some m" "\<And>j. 0 \<le> col j"
  shows "0 \<le> m"
proof -
  from assms(1) obtain xs where xs: "rolling_window n w col i = Some xs" "m = sum_list xs / real w"
    by (auto simp: rolling_mean_def)
  then have "xs = map col [i + 1 - w ..< i + 1]"
    by (auto simp: rolling_window_def split: if_splits)
  then have "0 \<le> sum_list xs" using assms(2) by (simp only: sum_list_map_nonneg)
  then show ?thesis using xs(2) by simp
qed

lemma rolling_sum_nonneg:
  assumes "rolling_sum n w col i = Some m" "\<And>j. 0 \<le> col j"
  shows "0 \<le> m"
proof -
  from assms(1) obtain xs where xs: "rolling_window n w col i = Some xs" "m = sum_list xs"
    by (auto simp: rolling_sum_def)
  then have "xs = map col [i + 1 - w ..< i + 1]"
    by (auto simp: rolling_window_def split: if_splits)
  then have "0 \<le> sum_list xs" using assms(2) by (simp only: sum_list_map_nonneg)
  then show ?thesis using xs(2) by simp
qed

lemma epsilon_pos: "0 < epsilon"
  by (simp add: epsilon_def)

text \<open>The guard of the RSI works: once the window is full the value is finite.\<close>

lemma rsi_at_finite:
  assumes "0 < w" "w \<le> i + 1" "i < length df"
  shows "is_finite (rsi_at w df i)"
proof -
  obtain g where g: "rolling_mean (length df) w (gain_at df) i = Some g"
    using assms by (simp add: rolling_mean_def rolling_window_full)
  obtain l where l: "rolling_mean (length df) w (loss_at df) i = Some l"
    using assms by (simp add: rolling_mean_def rolling_window_full)
  have g0: "0 \<le> g" using g gain_at_nonneg by (rule rolling_mean_nonneg)
  have l0: "0 \<le> l" using l loss_at_nonneg by (rule rolling_mean_nonneg)
  have den: "0 < l + epsilon" using l0 epsilon_pos by linarith
  then have rs: "np_divide g (l + epsilon) = Fin (g / (l + epsilon))"
    by (simp add: np_divide_def)
  have "0 \<le> g / (l + epsilon)" using g0 den by simp
  then have "1 + g / (l + epsilon) \<noteq> 0" by linarith
  then have "np_divide 100 (1 + g / (l + epsilon)) = Fin (100 / (1 + g / (l + epsilon)))"
    by (simp add: np_divide_def)
  then show ?thesis
    by (simp add: rsi_at_def g l rs rsi_from_rs_def)
qed

text \<open>So does the guard of the directional indicators, on bars whose high is not below the low.\<close>

lemma di_at_finite:
  assumes "0 < w" "w \<le> i + 1" "i < length df" "bar_low (df ! 0) \<le> bar_high (df ! 0)"
  shows "is_finite (di_at dm w df i)"
proof -
  obtain d where d: "rolling_sum (length df) w (dm df) i = Some d"
    using assms by (simp add: rolling_sum_def rolling_window_full)
  obtain t where t: "rolling_sum (length df) w (true_range df) i = Some t"
    using assms by (simp add: rolling_sum_def rolling_window_full)
  have "0 \<le> t" using t true_range_nonneg[OF assms(4)] by (rule rolling_sum_nonneg)
  then have "t + epsilon \<noteq> 0" using epsilon_pos by linarith
  then show ?thesis
    by (simp add: di_at_def d t np_divide_def np_times_100_def)
qed

text \<open>
  The guard of the choppiness index covers the denominator only: when every true range
  of the window is \<open>0\<close> the quotient is \<open>0\<close> and its logarithm is \<open>-inf\<close>.
\<close>

lemma chop14_zero_range_sum:
  assumes "rolling_sum (length df) 14 (true_range df) i = Some 0"
      and "rolling_max (length df) 14 (\<lambda>j. bar_high (df ! j)) i = Some hi"
      and "rolling_min (length df) 14 (\<lambda>j. bar_low (df ! j)) i = Some lo"
      and "hi - lo + epsilon \<noteq> 0"
  shows "chop14 df i = NegInf"
  using assms by (simp add: chop14_def np_divide_def np_log10_def)

text \<open>
  C9 fails on the code. On fourteen bars with all prices equal, every true range is
  \<open>0\<close> and so is the highest high minus the lowest low: the choppiness index is
  \<open>100 * log10(0 / (0 + 1e-10)) / log10(14)\<close>, the logarithm of zero, which is
  \<open>-inf\<close>. No rounding is involved: the sum of zeros and the quotient are exactly
  \<open>0\<close> in floating point too. The RSI and both directional indicators are \<open>0\<close> on the
  same window, as their guards intend.
\<close>

theorem chop14_flat_window_is_minus_infinity:
  "chop14 example_flat_df 13 = NegInf
   \<and> \<not> is_finite (chop14 example_flat_df 13)
   \<and> rsi_at 14 example_flat_df 13 = Fin 0
   \<and> plus_di 14 example_flat_df 13 = Fin 0
   \<and> minus_di 14 example_flat_df 13 = Fin 0"
proof -
  have s: "rolling_sum (length example_flat_df) 14 (true_range example_flat_df) 13 = Some 0"
    by code_simp
  have hi: "rolling_max (length example_flat_df) 14 (\<lambda>j. bar_high (example_flat_df ! j)) 13
            = Some 150"
    by code_simp
  have lo: "rolling_min (length example_flat_df) 14 (\<lambda>j. bar_low (example_flat_df ! j)) 13
            = Some 150"
    by code_simp
  have "(150::real) - 150 + epsilon \<noteq> 0" by (simp add: epsilon_def)
  with s hi lo have c: "chop14 example_flat_df 13 = NegInf"
    by (rule chop14_zero_range_sum)
  have r: "rsi_at 14 example_flat_df 13 = Fin 0
           \<and> plus_di 14 example_flat_df 13 = Fin 0
           \<and> minus_di 14 example_flat_df 13 = Fin 0"
    by code_simp
  from c r show ?thesis by simp
qed

end
